theory Spec2Isabelle
  imports Complex_Main "HOL-Library.Sublist"
begin

section \<open>Conversation history (src/conversation/history.py)\<close>

text \<open>
  A message is a Python dict with string keys; the values the history manager reads
  (\<open>role\<close>, \<open>content\<close>) are strings. A dict is an association list read with
  \<open>map_of\<close>, so \<open>msg.get(k)\<close> is \<open>dict_get msg k\<close> and \<open>None\<close> is a missing key.
\<close>

type_synonym py_dict = "(string \<times> string) list"

definition dict_get :: "py_dict \<Rightarrow> string \<Rightarrow> string option" where
  "dict_get d k = map_of d k"

definition dict_get_default :: "py_dict \<Rightarrow> string \<Rightarrow> string \<Rightarrow> string" where
  "dict_get_default d k dflt = (case map_of d k of None \<Rightarrow> dflt | Some v \<Rightarrow> v)"

text \<open>Decimal rendering of a natural number, as an f-string prints an int.\<close>

definition digit_char :: "nat \<Rightarrow> char" where
  "digit_char d = char_of (48 + d)"

fun str_nat :: "nat \<Rightarrow> string" where
  "str_nat n = (if n < 10 then [digit_char n] else str_nat (n div 10) @ [digit_char (n mod 10)])"

declare str_nat.simps [simp del]

definition str_int :: "int \<Rightarrow> string" where
  "str_int i = (if i < 0 then ''-'' @ str_nat (nat (- i)) else str_nat (nat i))"

text \<open>\<open>str(x)\<close> of an optional string inside an f-string: \<open>None\<close> prints as the word None.\<close>

definition str_opt :: "string option \<Rightarrow> string" where
  "str_opt v = (case v of None \<Rightarrow> ''None'' | Some s \<Rightarrow> s)"

text \<open>
  \<open>ConversationHistory.__init__\<close>: the token budget and the characters-to-tokens ratio.
  The ratio \<open>tokens_per_char\<close> is a Python float and \<open>estimate_tokens\<close> uses it only in
  \<open>int(total_chars * self.tokens_per_char)\<close>, a product in binary floating point that is then
  truncated toward zero. The manager therefore carries that computation itself:
  \<open>tokens_of_chars h n\<close> is the value of \<open>int(n * self.tokens_per_char)\<close>, whatever the ratio
  and however the product rounds. For the default ratio \<open>1.0 / 4\<close>, a power of two, the
  product is exact for every character count below \<open>2 ^ 53\<close> and the estimate is \<open>n div 4\<close>.
\<close>

record history_manager =
  max_tokens :: int
  tokens_of_chars :: "nat \<Rightarrow> int"

definition DEFAULT_MAX_TOKENS :: int where
  "DEFAULT_MAX_TOKENS = 150000"

definition TOKENS_PER_MESSAGE_ESTIMATE :: int where
  "TOKENS_PER_MESSAGE_ESTIMATE = 4"

definition default_history_manager :: history_manager where
  "default_history_manager =
     \<lparr>max_tokens = DEFAULT_MAX_TOKENS,
      tokens_of_chars = (\<lambda>total_chars. int total_chars div TOKENS_PER_MESSAGE_ESTIMATE)\<rparr>"

definition estimate_tokens :: "history_manager \<Rightarrow> py_dict list \<Rightarrow> int" where
  "estimate_tokens h messages =
     (let total_chars = sum_list (map (\<lambda>msg. length (dict_get_default msg ''content'' '''')) messages)
      in tokens_of_chars h total_chars)"

text \<open>Python slices \<open>xs[-k:]\<close> and \<open>xs[:-k]\<close> for an int \<open>k\<close> (\<open>-0\<close> is \<open>0\<close>).\<close>

definition slice_from_neg :: "'a list \<Rightarrow> int \<Rightarrow> 'a list" where
  "slice_from_neg xs k = (if 0 < k then drop (length xs - nat k) xs else drop (nat (- k)) xs)"

definition slice_to_neg :: "'a list \<Rightarrow> int \<Rightarrow> 'a list" where
  "slice_to_neg xs k = (if 0 < k then take (length xs - nat k) xs else take (nat (- k)) xs)"

text \<open>
  The loop of \<open>truncate_to_fit\<close> over \<open>reversed(remaining_messages)\<close>: the first argument
  is the older messages, newest first; \<open>break\<close> returns the window built so far.
\<close>

fun prepend_older :: "history_manager \<Rightarrow> py_dict list \<Rightarrow> py_dict list \<Rightarrow> py_dict list" where
  "prepend_older h [] truncated = truncated"
| "prepend_older h (msg # older) truncated =
     (let test_history = msg # truncated
      in if estimate_tokens h test_history \<le> max_tokens h
         then prepend_older h older test_history
         else truncated)"

definition truncate_to_fit :: "history_manager \<Rightarrow> py_dict list \<Rightarrow> int \<Rightarrow> py_dict list" where
  "truncate_to_fit h messages keep_most_recent =
     (if messages = [] then []
      else if estimate_tokens h messages \<le> max_tokens h then messages
      else
        let kept_messages =
              (if int (length messages) > keep_most_recent
               then slice_from_neg messages keep_most_recent else messages);
            remaining_messages =
              (if int (length messages) > keep_most_recent
               then slice_to_neg messages keep_most_recent else [])
        in prepend_older h (rev remaining_messages) kept_messages)"

text \<open>\<open>format_for_claude\<close> as \<open>prepare_for_api\<close> calls it (\<open>include_metadata=False\<close>).\<close>

definition valid_role :: "string option \<Rightarrow> bool" where
  "valid_role role = (role = Some ''user'' \<or> role = Some ''assistant'')"

fun format_for_claude :: "py_dict list \<Rightarrow> py_dict list" where
  "format_for_claude [] = []"
| "format_for_claude (msg # messages) =
     (let role = dict_get msg ''role'';
          content = dict_get_default msg ''content'' ''''
      in if \<not> valid_role role then format_for_claude messages
         else [(''role'', the role), (''content'', content)] # format_for_claude messages)"

text \<open>
  The loop of \<open>validate_alternation\<close>: \<open>prev_role\<close> is \<open>None\<close> before the first message;
  the result is the error message of the first offending index, if any.
\<close>

fun alternation_loop :: "string option \<Rightarrow> nat \<Rightarrow> py_dict list \<Rightarrow> string option" where
  "alternation_loop prev_role idx [] = None"
| "alternation_loop prev_role idx (msg # messages) =
     (let role = dict_get msg ''role''
      in if \<not> valid_role role
         then Some (''Invalid role '' @ [CHR 0x27] @ str_opt role @ [CHR 0x27] @ '' at index '' @ str_nat idx)
         else if prev_role \<noteq> None \<and> role = prev_role
         then Some (''Non-alternating roles at index '' @ str_nat idx @ '': ''
                    @ str_opt prev_role @ '' -> '' @ str_opt role)
         else alternation_loop role (Suc idx) messages)"

definition validate_alternation :: "py_dict list \<Rightarrow> bool \<times> string option" where
  "validate_alternation messages =
     (case messages of
        [] \<Rightarrow> (True, None)
      | first # _ \<Rightarrow>
          (case alternation_loop None 0 messages of
             Some err \<Rightarrow> (False, Some err)
           | None \<Rightarrow>
               if dict_get first ''role'' \<noteq> Some ''user''
               then (False, Some ''Conversation must start with user message'')
               else (True, None)))"

datatype history_error = ValueError string

text \<open>
  \<open>prepare_for_api\<close>, in two steps: the list held in \<open>formatted\<close> when validation runs
  (after truncation with the default window of 10, formatting, and appending a truthy
  \<open>new_user_message\<close>), then the validation, whose failure raises \<open>ValueError\<close>.
\<close>

definition formatted_for_validation ::
  "history_manager \<Rightarrow> py_dict list \<Rightarrow> string option \<Rightarrow> bool \<Rightarrow> py_dict list" where
  "formatted_for_validation h messages new_user_message auto_truncate =
     (let messages1 = (if auto_truncate then truncate_to_fit h messages 10 else messages);
          formatted = format_for_claude messages1
      in case new_user_message of
           None \<Rightarrow> formatted
         | Some text \<Rightarrow>
             if text = [] then formatted
             else formatted @ [[(''role'', ''user''), (''content'', text)]])"

definition prepare_for_api ::
  "history_manager \<Rightarrow> py_dict list \<Rightarrow> string option \<Rightarrow> bool \<Rightarrow> history_error + py_dict list" where
  "prepare_for_api h messages new_user_message auto_truncate =
     (let formatted = formatted_for_validation h messages new_user_message auto_truncate
      in case validate_alternation formatted of
           (True, _) \<Rightarrow> Inr formatted
         | (False, error) \<Rightarrow> Inl (ValueError (''Invalid message sequence: '' @ str_opt error)))"

text \<open>
  What the LLM boundary requires of a message list, stated independently of the
  validation loop: position \<open>i\<close> holds \<open>user\<close> when \<open>i\<close> is even and \<open>assistant\<close> when odd.
\<close>

definition alternates_from_user :: "py_dict list \<Rightarrow> bool" where
  "alternates_from_user ms =
     (\<forall>i < length ms. dict_get (ms ! i) ''role'' = Some (if even i then ''user'' else ''assistant''))"

text \<open>Inputs used to evaluate the history manager.\<close>

definition tiny_manager :: history_manager where
  "tiny_manager =
     \<lparr>max_tokens = 2, tokens_of_chars = (\<lambda>total_chars. int total_chars div 4)\<rparr>"

definition msg_of :: "string \<Rightarrow> string \<Rightarrow> py_dict" where
  "msg_of role content = [(''role'', role), (''content'', content)]"

text \<open>The role that must follow a given role.\<close>

definition other_role :: "string \<Rightarrow> string" where
  "other_role r = (if r = ''user'' then ''assistant'' else ''user'')"

definition history_example :: "py_dict list" where
  "history_example =
     [msg_of ''user'' ''aaaaaaaa'', msg_of ''assistant'' '''', msg_of ''user'' ''cccccc'']"

definition oversized_example :: "py_dict list" where
  "oversized_example = [msg_of ''user'' ''cccccccccccccccc'']"


section \<open>Tool registry (src/tools/registry.py)\<close>

text \<open>
  JSON values (the JSONB columns of the store), Python values that occur in tool payloads,
  and a payload as a dict with string keys.
\<close>

datatype json =
    JNull
  | JBool bool
  | JNum int
  | JStr string
  | JArr "json list"
  | JObj "(string \<times> json) list"

datatype py_value =
    PNone
  | PBool bool
  | PInt int
  | PStr string
  | PList "py_value list"

type_synonym payload = "(string \<times> py_value) list"

type_synonym session_context = py_dict

text \<open>Truthiness of \<open>Optional[str]\<close> and of \<open>Optional[Dict]\<close>: \<open>None\<close> and the empty value are falsy.\<close>

definition truthy_str :: "string option \<Rightarrow> bool" where
  "truthy_str v = (case v of None \<Rightarrow> False | Some s \<Rightarrow> s \<noteq> [])"

definition truthy_ctx :: "session_context option \<Rightarrow> bool" where
  "truthy_ctx c = (case c of None \<Rightarrow> False | Some d \<Rightarrow> d \<noteq> [])"

text \<open>
  What awaiting a handler can do: return its payload, raise \<open>TypeError\<close> (the call
  \<open>tool_handler(**tool_input)\<close> does not fit the handler's signature), or raise another
  \<open>Exception\<close>. The argument of a raise is \<open>str(e)\<close>.
\<close>

datatype handler_outcome =
    Returned payload
  | RaisedTypeError string
  | RaisedException string

type_synonym tool_handler = "payload \<Rightarrow> session_context option \<Rightarrow> handler_outcome"

text \<open>
  \<open>self._tools\<close>, an insertion-ordered dict from tool name to handler; \<open>execute_tool\<close> does
  not read the stored definition.
\<close>

type_synonym tool_registry = "(string \<times> tool_handler) list"

text \<open>The \<open>error\<close> sub-dict and the dict \<open>execute_tool\<close> returns; an absent key is \<open>None\<close>.\<close>

record error_info =
  err_type :: string
  err_message :: string
  err_available_tools :: "string list option"
  err_details :: "string option"

record tool_result =
  tr_success :: bool
  tr_result :: "payload option"
  tr_error :: "error_info option"
  tr_execution_time :: rat
  tr_tool_name :: string
  tr_timestamp :: "string option"

text \<open>
  The clock readings of one call: \<open>time.time()\<close> on entry, \<open>time.time()\<close> when the result is
  built, and \<open>datetime.utcnow().isoformat()\<close>.
\<close>

record registry_clock =
  start_time :: rat
  end_time :: rat
  utcnow_iso :: string

definition quoted :: "string \<Rightarrow> string" where
  "quoted s = [CHR 0x27] @ s @ [CHR 0x27]"

definition execute_tool ::
  "tool_registry \<Rightarrow> registry_clock \<Rightarrow> string \<Rightarrow> payload \<Rightarrow> session_context option \<Rightarrow> tool_result" where
  "execute_tool tools clk tool_name tool_input session_context =
     (case map_of tools tool_name of
        None \<Rightarrow>
          \<lparr>tr_success = False,
           tr_result = None,
           tr_error = Some \<lparr>err_type = ''tool_not_found'',
                             err_message = ''Tool '' @ quoted tool_name @ '' not found in registry'',
                             err_available_tools = Some (map fst tools),
                             err_details = None\<rparr>,
           tr_execution_time = end_time clk - start_time clk,
           tr_tool_name = tool_name,
           tr_timestamp = None\<rparr>
      | Some tool_handler \<Rightarrow>
          (case (if truthy_ctx session_context then tool_handler tool_input session_context
                 else tool_handler tool_input None) of
             Returned result \<Rightarrow>
               \<lparr>tr_success = (map_of result ''error'' = None),
                tr_result = Some result,
                tr_error = None,
                tr_execution_time = end_time clk - start_time clk,
                tr_tool_name = tool_name,
                tr_timestamp = Some (utcnow_iso clk)\<rparr>
           | RaisedTypeError e \<Rightarrow>
               \<lparr>tr_success = False,
                tr_result = None,
                tr_error = Some \<lparr>err_type = ''invalid_input'',
                                  err_message = ''Invalid input parameters for tool '' @ quoted tool_name
                                                  @ '': '' @ e,
                                  err_available_tools = None,
                                  err_details = Some e\<rparr>,
                tr_execution_time = end_time clk - start_time clk,
                tr_tool_name = tool_name,
                tr_timestamp = Some (utcnow_iso clk)\<rparr>
           | RaisedException e \<Rightarrow>
               \<lparr>tr_success = False,
                tr_result = None,
                tr_error = Some \<lparr>err_type = ''execution_error'',
                                  err_message = ''Unexpected error executing tool '' @ quoted tool_name
                                                  @ '': '' @ e,
                                  err_available_tools = None,
                                  err_details = Some e\<rparr>,
                tr_execution_time = end_time clk - start_time clk,
                tr_tool_name = tool_name,
                tr_timestamp = Some (utcnow_iso clk)\<rparr>))"

section \<open>Tool loop of the LLM client (src/claude/client.py)\<close>

text \<open>
  A content block of a reply is a dict read with \<open>.get\<close>; \<open>blk_input\<close> is the \<open>repr\<close> of the
  block's input dict, as the placeholder \<open>_execute_tool\<close> prints it.
\<close>

record content_block =
  blk_type :: "string option"
  blk_id :: "string option"
  blk_name :: "string option"
  blk_input :: "string option"
  blk_text :: "string option"

record llm_response =
  stop_reason :: "string option"
  resp_content :: "content_block list option"

record tool_result_block =
  trb_tool_use_id :: "string option"
  trb_content :: string

datatype message_content =
    TextContent string
  | AssistantContent "content_block list option"
  | ToolResults "tool_result_block list"

type_synonym chat_message = "string \<times> message_content"

text \<open>
  \<open>send_message\<close> posts one request and either returns the decoded reply or raises from
  \<open>raise_for_status\<close>. The remote model is a parameter: the outcome of the \<open>i\<close>-th call,
  given the content sent.
\<close>

datatype send_outcome = Reply llm_response | HTTPStatusError string

type_synonym llm = "nat \<Rightarrow> message_content \<Rightarrow> send_outcome"

datatype client_error = RuntimeError string | HTTPError string

definition client_execute_tool :: "string option \<Rightarrow> string option \<Rightarrow> string" where
  "client_execute_tool tool_name tool_input =
     ''Tool '' @ str_opt tool_name @ '' executed with input: ''
       @ (case tool_input of None \<Rightarrow> ''{}'' | Some i \<Rightarrow> i)"

definition tool_uses_of :: "llm_response \<Rightarrow> content_block list" where
  "tool_uses_of response =
     filter (\<lambda>block. blk_type block = Some ''tool_use'')
       (case resp_content response of None \<Rightarrow> [] | Some blocks \<Rightarrow> blocks)"

definition tool_results_of :: "content_block list \<Rightarrow> tool_result_block list" where
  "tool_results_of tool_uses =
     map (\<lambda>tool_use. \<lparr>trb_tool_use_id = blk_id tool_use,
                       trb_content = client_execute_tool (blk_name tool_use) (blk_input tool_use)\<rparr>)
       tool_uses"

text \<open>
  The \<open>for iteration in range(max_iterations)\<close> loop: \<open>remaining\<close> counts the iterations
  left, \<open>iteration\<close> the calls made. The message list is never empty, so
  \<open>messages[-1]\<close> is \<open>last messages\<close>.
\<close>

fun tool_loop ::
  "llm \<Rightarrow> int \<Rightarrow> nat \<Rightarrow> nat \<Rightarrow> chat_message list \<Rightarrow> client_error + llm_response" where
  "tool_loop model max_iterations 0 iteration messages =
     Inl (RuntimeError (''Tool execution loop exceeded max iterations: '' @ str_int max_iterations))"
| "tool_loop model max_iterations (Suc remaining) iteration messages =
     (case model iteration (snd (last messages)) of
        HTTPStatusError e \<Rightarrow> Inl (HTTPError e)
      | Reply response \<Rightarrow>
          if stop_reason response = Some ''tool_use''
          then tool_loop model max_iterations remaining (Suc iteration)
                 (messages @ [(''assistant'', AssistantContent (resp_content response)),
                              (''user'', ToolResults (tool_results_of (tool_uses_of response)))])
          else Inr response)"

definition execute_with_tools :: "llm \<Rightarrow> string \<Rightarrow> int \<Rightarrow> client_error + llm_response" where
  "execute_with_tools model message max_iterations =
     tool_loop model max_iterations (nat max_iterations) 0 [(''user'', TextContent message)]"

section \<open>The store (tables read and written by src/tools/*.py)\<close>

text \<open>
  The handlers reach PostgreSQL through \<open>db_client.pool\<close>; the schema itself is not part of
  the repository. Each table is modelled as the list of its rows, with every column that
  some handler names, and \<open>NULL\<close> as \<open>None\<close>. The handlers address \<open>module_data\<close> under two
  vocabularies (\<open>module_name\<close>, \<open>field_name\<close>, \<open>field_value\<close>, \<open>data_source\<close> in
  \<open>update_module\<close>; \<open>module_number\<close>, \<open>field_id\<close>, \<open>value\<close>, \<open>source\<close> in \<open>request_audit\<close> and
  \<open>certify_application\<close>) and \<open>documents\<close> likewise (\<open>ocr_status\<close>, \<open>extraction_status\<close>);
  the rows carry both. A statement that PostgreSQL accepts is taken at its relational
  meaning: \<open>fetchrow\<close> is the first matching row, an \<open>UPDATE\<close> rewrites every matching
  row, an \<open>INSERT\<close> appends a row with a fresh \<open>id\<close>. A statement that PostgreSQL refuses
  to prepare raises \<open>asyncpg.PostgresError\<close>, and the handler's \<open>except\<close> branch answers
  \<open>database_error\<close>; the two such statements are in \<open>request_audit\<close>. The pool registers no
  JSON codec, so a JSONB column that Python reads arrives as \<open>str\<close>. Loss of the connection
  is outside the model. A call reads the
  clock once; \<open>now\<close> is that reading in ISO format, for \<open>datetime.utcnow()\<close> and for SQL
  \<open>NOW()\<close>.
\<close>

record application =
  app_id :: string
  app_user_id :: string
  app_status :: string
  app_certification_type :: string
  app_notes :: "string option"
  app_created_at :: string
  app_updated_at :: string

record document =
  doc_id :: string
  doc_application_id :: string
  doc_document_type :: string
  doc_file_name :: string
  doc_extraction_status :: "string option"
  doc_ocr_status :: "string option"
  doc_metadata :: "json option"
  doc_extraction_metadata :: "json option"

record module_field =
  md_id :: nat
  md_application_id :: string
  md_module_number :: "int option"
  md_module_name :: "string option"
  md_field_id :: "string option"
  md_field_name :: "string option"
  md_value :: "json option"
  md_field_value :: "string option"
  md_source :: "string option"
  md_data_source :: "string option"
  md_confidence_score :: "rat option"
  md_created_at :: "string option"
  md_updated_at :: "string option"

record audit_entry =
  au_application_id :: string
  au_user_id :: string
  au_action :: string
  au_field_id :: "string option"
  au_new_value :: string
  au_created_at :: string

record store =
  applications :: "application list"
  documents :: "document list"
  module_data :: "module_field list"
  audit_trail :: "audit_entry list"

text \<open>The opening steps every handler shares.\<close>

definition resolve_application_id :: "string option \<Rightarrow> session_context option \<Rightarrow> string option" where
  "resolve_application_id application_id session_context =
     (if \<not> truthy_str application_id \<and> truthy_ctx session_context
      then dict_get (the session_context) ''application_id''
      else application_id)"

definition context_user_id :: "session_context option \<Rightarrow> string option" where
  "context_user_id session_context =
     (if truthy_ctx session_context then dict_get (the session_context) ''user_id'' else None)"

definition fetch_application :: "store \<Rightarrow> string \<Rightarrow> application option" where
  "fetch_application db target_application_id =
     find (\<lambda>a. app_id a = target_application_id) (applications db)"

definition touch_application :: "store \<Rightarrow> string \<Rightarrow> string \<Rightarrow> store" where
  "touch_application db now target_application_id =
     db\<lparr>applications :=
          map (\<lambda>a. if app_id a = target_application_id then a\<lparr>app_updated_at := now\<rparr> else a)
            (applications db)\<rparr>"

definition error_payload :: "string \<Rightarrow> string \<Rightarrow> payload" where
  "error_payload code message = [(''error'', PStr code), (''message'', PStr message)]"

definition py_opt_str :: "string option \<Rightarrow> py_value" where
  "py_opt_str v = (case v of None \<Rightarrow> PNone | Some s \<Rightarrow> PStr s)"

text \<open>Fixed message texts of the handlers.\<close>

definition msg_confirmation_required :: string where
  "msg_confirmation_required =
     ''Certification requires explicit confirmation. Set certification_confirmed=true to proceed. This action is irreversible and will lock the application.''"

definition msg_application_id_required :: string where
  "msg_application_id_required =
     ''No application_id provided and no application linked to current session.''"

definition msg_unauthorized_certify :: string where
  "msg_unauthorized_certify =
     ''You do not have permission to certify this application.''"

definition msg_validation_failed :: string where
  "msg_validation_failed =
     ''Application does not meet certification requirements. Please resolve the following issues:''"

definition msg_certified_note :: string where
  "msg_certified_note =
     ''This application is now locked and cannot be edited. It has entered the final review queue.''"

definition msg_certified_prefix :: string where
  "msg_certified_prefix =
     ''Application successfully certified and locked. Status: approved. Certificate PDF will be generated and available at ''"

definition msg_application_id_required_long :: string where
  "msg_application_id_required_long =
     ''No application_id provided and no application linked to current session. Please provide an application_id or link an application to this conversation.''"

definition msg_unauthorized_update :: string where
  "msg_unauthorized_update =
     ''You do not have permission to update this application.''"

definition msg_unauthorized_flag :: string where
  "msg_unauthorized_flag =
     ''You do not have permission to flag items in this application.''"

definition msg_no_targets :: string where
  "msg_no_targets =
     ''Must specify either document_id or field_ids (or both) to flag for audit.''"

section \<open>certify_application (src/tools/certify_application.py)\<close>

text \<open>JSONB operators of the flagged-fields query.\<close>

definition jsonb_is_object :: "json option \<Rightarrow> bool" where
  "jsonb_is_object v = (case v of Some (JObj _) \<Rightarrow> True | _ \<Rightarrow> False)"

text \<open>
  \<open>value->>'key'\<close>: the field as text, \<open>NULL\<close> when absent or JSON null. The text of a
  nested array or object is abbreviated; it starts with a bracket and never equals
  \<open>true\<close>.
\<close>

definition jsonb_field_text :: "json option \<Rightarrow> string \<Rightarrow> string option" where
  "jsonb_field_text v key =
     (case v of
        Some (JObj kvs) \<Rightarrow>
          (case map_of kvs key of
             Some (JStr s) \<Rightarrow> Some s
           | Some (JBool b) \<Rightarrow> Some (if b then ''true'' else ''false'')
           | Some (JNum n) \<Rightarrow> Some (str_int n)
           | Some (JArr _) \<Rightarrow> Some ''[...]''
           | Some (JObj _) \<Rightarrow> Some ''{...}''
           | _ \<Rightarrow> None)
      | _ \<Rightarrow> None)"

text \<open>\<open>value @> '{"_audit_flagged": true}'\<close>: containment of a one-key object.\<close>

definition jsonb_contains_flag :: "json option \<Rightarrow> bool" where
  "jsonb_contains_flag v =
     (case v of
        Some (JObj kvs) \<Rightarrow> map_of kvs ''_audit_flagged'' = Some (JBool True)
      | _ \<Rightarrow> False)"

definition audit_flagged :: "module_field \<Rightarrow> bool" where
  "audit_flagged row =
     ((jsonb_is_object (md_value row) \<and> jsonb_field_text (md_value row) ''_audit_flagged'' = Some ''true'')
      \<or> jsonb_contains_flag (md_value row))"

definition doc_status_count :: "store \<Rightarrow> string \<Rightarrow> string \<Rightarrow> nat" where
  "doc_status_count db target_application_id status =
     length (filter (\<lambda>d. doc_application_id d = target_application_id
                          \<and> doc_extraction_status d = Some status) (documents db))"

definition certify_module_names :: "(int \<times> string) list" where
  "certify_module_names =
     [(1, ''Financial Information''), (2, ''Compliance Records''), (3, ''Operations Data''),
      (4, ''Sustainability Practices''), (5, ''Risk Management'')]"

definition join_with :: "string \<Rightarrow> string list \<Rightarrow> string" where
  "join_with sep xs = (case xs of [] \<Rightarrow> [] | x # rest \<Rightarrow> x @ concat (map (\<lambda>y. sep @ y) rest))"

definition missing_modules :: "store \<Rightarrow> string \<Rightarrow> int list" where
  "missing_modules db target_application_id =
     (let module_numbers =
            remdups (map md_module_number
              (filter (\<lambda>r. md_application_id r = target_application_id) (module_data db)));
          required_modules = [1, 2, 3, 4, 5]
      in filter (\<lambda>m. Some m \<notin> set module_numbers) required_modules)"

definition flagged_count :: "store \<Rightarrow> string \<Rightarrow> nat" where
  "flagged_count db target_application_id =
     length (filter (\<lambda>r. md_application_id r = target_application_id \<and> audit_flagged r)
               (module_data db))"

definition total_docs :: "store \<Rightarrow> string \<Rightarrow> nat" where
  "total_docs db target_application_id =
     length (filter (\<lambda>d. doc_application_id d = target_application_id) (documents db))"

text \<open>The f-strings of the four checks.\<close>

definition pending_message :: "nat \<Rightarrow> string" where
  "pending_message n = str_nat n @ '' document(s) still pending processing''"

definition processing_message :: "nat \<Rightarrow> string" where
  "processing_message n = str_nat n @ '' document(s) currently being processed''"

definition failed_message :: "nat \<Rightarrow> string" where
  "failed_message n = str_nat n @ '' document(s) failed processing''"

definition missing_modules_message :: "int list \<Rightarrow> string" where
  "missing_modules_message missing =
     (let missing_names =
            map (\<lambda>m. ''Module '' @ str_int m @ '' ('' @ the (map_of certify_module_names m) @ '')'')
              missing
      in ''Missing required modules: '' @ join_with '', '' missing_names)"

definition flagged_message :: "nat \<Rightarrow> string" where
  "flagged_message n =
     str_nat n @ '' field(s) flagged for audit - must be reviewed before certification''"

definition no_documents_message :: string where
  "no_documents_message = ''No documents uploaded - at least one document is required''"

text \<open>The list \<open>validation_failures\<close> as the four checks build it, in order.\<close>

definition validation_failures :: "store \<Rightarrow> string \<Rightarrow> string list" where
  "validation_failures db target_application_id =
     (let failures0 = [];
          pending = doc_status_count db target_application_id ''pending'';
          failures1 = (if pending > 0 then failures0 @ [pending_message pending] else failures0);
          processing = doc_status_count db target_application_id ''processing'';
          failures2 = (if processing > 0 then failures1 @ [processing_message processing]
                       else failures1);
          errored = doc_status_count db target_application_id ''error'';
          failures3 = (if errored > 0 then failures2 @ [failed_message errored] else failures2);
          missing = missing_modules db target_application_id;
          failures4 = (if missing \<noteq> [] then failures3 @ [missing_modules_message missing]
                       else failures3);
          flagged = flagged_count db target_application_id;
          failures5 = (if flagged > 0 then failures4 @ [flagged_message flagged] else failures4);
          failures6 = (if total_docs db target_application_id = 0
                       then failures5 @ [no_documents_message]
                       else failures5)
      in failures6)"

definition certificate_url :: "string \<Rightarrow> string" where
  "certificate_url target_application_id =
     ''/api/applications/'' @ target_application_id @ ''/certificate.pdf''"

definition certify_application ::
  "store \<Rightarrow> string \<Rightarrow> bool \<Rightarrow> string option \<Rightarrow> session_context option \<Rightarrow> payload \<times> store" where
  "certify_application db now certification_confirmed application_id session_context =
     (if \<not> certification_confirmed
      then (error_payload ''confirmation_required''
              msg_confirmation_required,
            db)
      else
        let target = resolve_application_id application_id session_context in
        if \<not> truthy_str target
        then (error_payload ''application_id_required''
                msg_application_id_required, db)
        else
          let target_application_id = the target;
              user_id = context_user_id session_context
          in case fetch_application db target_application_id of
               None \<Rightarrow>
                 (error_payload ''application_not_found''
                    (''Application '' @ target_application_id @ '' not found.''), db)
             | Some app_row \<Rightarrow>
                 if truthy_str user_id \<and> app_user_id app_row \<noteq> the user_id
                 then (error_payload ''unauthorized''
                         msg_unauthorized_certify, db)
                 else if app_status app_row \<in> set [''approved'', ''rejected'']
                 then (error_payload ''already_certified''
                         (''Application is already '' @ app_status app_row
                          @ '' and cannot be re-certified.''), db)
                 else
                   let failures = validation_failures db target_application_id in
                   if failures \<noteq> []
                   then ([(''error'', PStr ''validation_failed''),
                          (''message'', PStr msg_validation_failed),
                          (''validation_failures'', PList (map PStr failures)),
                          (''application_id'', PStr (app_id app_row)),
                          (''current_status'', PStr (app_status app_row))], db)
                   else
                     let certified_at = now;
                         db1 = db\<lparr>applications :=
                                 map (\<lambda>a. if app_id a = target_application_id
                                          then a\<lparr>app_status := ''approved'',
                                                 app_updated_at := certified_at,
                                                 app_notes :=
                                                   Some ((case app_notes a of None \<Rightarrow> [] | Some n \<Rightarrow> n)
                                                         @ [CHR 0x0A, CHR 0x0A] @ ''Certified at: ''
                                                         @ certified_at)\<rparr>
                                          else a)
                                   (applications db)\<rparr>;
                         db2 = (if truthy_str user_id
                                then db1\<lparr>audit_trail := audit_trail db1 @
                                       [\<lparr>au_application_id = target_application_id,
                                         au_user_id = the user_id,
                                         au_action = ''application_certified'',
                                         au_field_id = None,
                                         au_new_value = ''Application certified for ''
                                                          @ app_certification_type app_row,
                                         au_created_at = certified_at\<rparr>]\<rparr>
                                else db1);
                         pdf_url = certificate_url target_application_id
                     in ([(''success'', PBool True),
                          (''application_id'', PStr target_application_id),
                          (''status'', PStr ''approved''),
                          (''certification_type'', PStr (app_certification_type app_row)),
                          (''certified_at'', PStr certified_at),
                          (''pdf_url'', PStr pdf_url),
                          (''message'', PStr (msg_certified_prefix @ pdf_url)),
                          (''note'', PStr msg_certified_note)],
                         db2))"


section \<open>extract_fields (src/tools/extract_fields.py)\<close>

text \<open>
  The pool is created without a JSON codec, so the JSONB column \<open>extraction_metadata\<close> reaches
  the handler as a \<open>str\<close>, the text of the stored value, or as \<open>None\<close> when the column is
  NULL. The text of a JSONB value is never empty: the value is truthy exactly when the column
  is not NULL. \<open>.get\<close> on a \<open>str\<close> raises \<open>AttributeError\<close>, which the handler's
  \<open>except Exception\<close> turns into \<open>internal_error\<close>: this happens on the \<open>completed\<close> branch and
  on the \<open>failed\<close> branch whenever the metadata is not NULL.
\<close>

definition msg_processing :: string where
  "msg_processing = ''Document is currently being processed. Please check back in a few moments.''"

definition msg_initiated :: string where
  "msg_initiated = ''Document processing has been initiated. This typically takes 30-60 seconds.''"

definition msg_stub_note :: string where
  "msg_stub_note =
     ''In production, this would integrate with Docling OCR service. For now, this is a stub implementation.''"

definition msg_unauthorized_document :: string where
  "msg_unauthorized_document = ''You do not have permission to access this document.''"

definition msg_no_get :: string where
  "msg_no_get =
     ''Unexpected error: '' @ quoted ''str'' @ '' object has no attribute '' @ quoted ''get''"

definition extract_fields ::
  "store \<Rightarrow> string \<Rightarrow> string list option \<Rightarrow> session_context option \<Rightarrow> payload \<times> store" where
  "extract_fields db document_id field_hints session_context =
     (case find (\<lambda>d. doc_id d = document_id
                     \<and> fetch_application db (doc_application_id d) \<noteq> None) (documents db) of
        None \<Rightarrow>
          (error_payload ''document_not_found'' (''Document '' @ document_id @ '' not found.''), db)
      | Some document \<Rightarrow>
          let owner = app_user_id (the (fetch_application db (doc_application_id document)));
              user_id = context_user_id session_context
          in if truthy_str user_id \<and> owner \<noteq> the user_id
             then (error_payload ''unauthorized'' msg_unauthorized_document, db)
             else
               let ocr_status = doc_ocr_status document;
                   extraction_metadata = doc_extraction_metadata document
               in if ocr_status = Some ''completed'' \<and> extraction_metadata \<noteq> None
                  then (error_payload ''internal_error'' msg_no_get, db)
                  else if ocr_status = Some ''processing''
                  then ([(''document_id'', PStr (doc_id document)),
                         (''file_name'', PStr (doc_file_name document)),
                         (''ocr_status'', PStr ''processing''),
                         (''message'', PStr msg_processing),
                         (''estimated_time'', PStr ''30-60 seconds'')], db)
                  else if ocr_status = Some ''failed''
                  then (if extraction_metadata \<noteq> None
                        then (error_payload ''internal_error'' msg_no_get, db)
                        else
                          let error_message = ''Unknown error''
                          in ([(''error'', PStr ''ocr_failed''),
                               (''message'', PStr (''OCR processing failed for this document: ''
                                                    @ error_message)),
                               (''document_id'', PStr (doc_id document)),
                               (''file_name'', PStr (doc_file_name document))], db))
                  else if ocr_status = Some ''pending'' \<or> ocr_status = None
                  then ([(''document_id'', PStr (doc_id document)),
                         (''file_name'', PStr (doc_file_name document)),
                         (''ocr_status'', PStr ''processing''),
                         (''message'', PStr msg_initiated),
                         (''action_required'', PStr ''poll_for_completion''),
                         (''estimated_time'', PStr ''30-60 seconds''),
                         (''field_hints'',
                            PList (map PStr (case field_hints of None \<Rightarrow> [] | Some hs \<Rightarrow> hs))),
                         (''note'', PStr msg_stub_note)],
                        db\<lparr>documents :=
                             map (\<lambda>d. if doc_id d = document_id
                                      then d\<lparr>doc_ocr_status := Some ''processing''\<rparr> else d)
                               (documents db)\<rparr>)
                  else (error_payload ''unknown_status''
                          (''Document has unknown OCR status: '' @ str_opt ocr_status), db))"


section \<open>update_module (src/tools/update_module.py)\<close>

definition MODULE_NAMES :: "(int \<times> string) list" where
  "MODULE_NAMES =
     [(1, ''financial''), (2, ''compliance''), (3, ''operations''), (4, ''sustainability''), (5, ''risk'')]"

text \<open>The \<open>id\<close> the store gives an inserted \<open>module_data\<close> row: one no row has yet.\<close>

definition fresh_id :: "module_field list \<Rightarrow> nat" where
  "fresh_id rows = Suc (fold max (map md_id rows) 0)"

definition existing_field :: "store \<Rightarrow> string \<Rightarrow> string \<Rightarrow> string \<Rightarrow> module_field option" where
  "existing_field db target_application_id module_name field_id =
     find (\<lambda>r. md_application_id r = target_application_id
                \<and> md_module_name r = Some module_name
                \<and> md_field_name r = Some field_id) (module_data db)"

text \<open>
  The write of \<open>update_module\<close>: the \<open>UPDATE ... WHERE id = $3\<close> of the existing row, or the
  \<open>INSERT\<close> of a new one.
\<close>

definition write_field :: "store \<Rightarrow> string \<Rightarrow> string \<Rightarrow> string \<Rightarrow> string \<Rightarrow> string \<Rightarrow> store" where
  "write_field db now target_application_id module_name field_id new_value =
     (case existing_field db target_application_id module_name field_id of
        Some existing_row \<Rightarrow>
          db\<lparr>module_data :=
               map (\<lambda>r. if md_id r = md_id existing_row
                        then r\<lparr>md_field_value := Some new_value,
                               md_data_source := Some ''proxy_edited'',
                               md_confidence_score := Some 1,
                               md_updated_at := Some now\<rparr>
                        else r)
                 (module_data db)\<rparr>
      | None \<Rightarrow>
          db\<lparr>module_data := module_data db @
               [\<lparr>md_id = fresh_id (module_data db),
                 md_application_id = target_application_id,
                 md_module_number = None,
                 md_module_name = Some module_name,
                 md_field_id = None,
                 md_field_name = Some field_id,
                 md_value = None,
                 md_field_value = Some new_value,
                 md_source = None,
                 md_data_source = Some ''proxy_entered'',
                 md_confidence_score = Some 1,
                 md_created_at = Some now,
                 md_updated_at = Some now\<rparr>]\<rparr>)"

definition update_module ::
  "store \<Rightarrow> string \<Rightarrow> int \<Rightarrow> string \<Rightarrow> string \<Rightarrow> string option \<Rightarrow> session_context option
     \<Rightarrow> payload \<times> store" where
  "update_module db now module_number field_id new_value application_id session_context =
     (case map_of MODULE_NAMES module_number of
        None \<Rightarrow>
          (error_payload ''invalid_module''
             (''Module number must be between 1 and 5. Got: '' @ str_int module_number), db)
      | Some module_name \<Rightarrow>
          let target = resolve_application_id application_id session_context in
          if \<not> truthy_str target
          then (error_payload ''application_id_required'' msg_application_id_required_long, db)
          else
            let target_application_id = the target;
                user_id = context_user_id session_context
            in (case fetch_application db target_application_id of
                 None \<Rightarrow>
                   (error_payload ''application_not_found''
                      (''Application '' @ target_application_id @ '' not found.''), db)
               | Some app_row \<Rightarrow>
                   if truthy_str user_id \<and> app_user_id app_row \<noteq> the user_id
                   then (error_payload ''unauthorized'' msg_unauthorized_update, db)
                   else if app_status app_row \<in> set [''approved'', ''rejected'']
                   then (error_payload ''application_locked''
                           (''Cannot update fields in a '' @ app_status app_row
                            @ '' application. Application is locked.''), db)
                   else
                     let existing_row = existing_field db target_application_id module_name field_id;
                         old_value = (case existing_row of None \<Rightarrow> None
                                      | Some row \<Rightarrow> md_field_value row);
                         data_source = (case existing_row of None \<Rightarrow> ''proxy_entered''
                                        | Some row \<Rightarrow> ''proxy_edited'');
                         db1 = write_field db now target_application_id module_name field_id new_value;
                         db2 = touch_application db1 now target_application_id
                     in ([(''success'', PBool True),
                          (''field_id'', PStr field_id),
                          (''module_name'', PStr module_name),
                          (''module_number'', PInt module_number),
                          (''old_value'', py_opt_str old_value),
                          (''new_value'', PStr new_value),
                          (''data_source'', PStr data_source),
                          (''message'', PStr (''Successfully ''
                              @ (if truthy_str old_value then ''updated'' else ''created'')
                              @ '' field '' @ quoted field_id @ '' in '' @ module_name
                              @ '' module (Module '' @ str_int module_number @ '').''))],
                         db2)))"

section \<open>request_audit (src/tools/request_audit.py)\<close>

text \<open>
  Two statements of this handler are refused by PostgreSQL when they are prepared, before any
  row is read or written.

  \<^item> The document \<open>UPDATE\<close> assigns the column \<open>metadata\<close> three times in one \<open>SET\<close> list:
    \<open>multiple assignments to same column "metadata"\<close>.
  \<^item> The field \<open>UPDATE\<close> passes the parameters \<open>$1\<close> and \<open>$2\<close>, without a cast, to
    \<open>jsonb_build_object\<close>, whose arguments are \<open>VARIADIC "any"\<close>:
    \<open>could not determine data type of parameter $1\<close>.

  asyncpg raises a \<open>PostgresError\<close> in both cases and the handler's \<open>except\<close> branch answers
  \<open>database_error\<close>. Nothing was written before either statement, and the audit-trail
  \<open>INSERT\<close> and the \<open>updated_at\<close> bump after them are not reached.
\<close>

definition msg_multiple_assignments :: string where
  "msg_multiple_assignments =
     ''multiple assignments to same column '' @ [CHR 0x22] @ ''metadata'' @ [CHR 0x22]"

definition msg_indeterminate_datatype :: string where
  "msg_indeterminate_datatype = ''could not determine data type of parameter $1''"

definition database_error :: "string \<Rightarrow> payload" where
  "database_error e =
     error_payload ''database_error'' (''Database error while flagging items for audit: '' @ e)"

text \<open>
  The loop over \<open>field_ids\<close>. A field id without a row is skipped; at the first field id that
  has a row the field \<open>UPDATE\<close> raises. The result is the message of the error raised, or
  \<open>None\<close> when the loop ends, which it does only with \<open>flagged_fields_count\<close> still 0 and
  \<open>audit_details\<close> unchanged.
\<close>

fun flag_fields :: "store \<Rightarrow> string \<Rightarrow> string list \<Rightarrow> string option" where
  "flag_fields db target_application_id [] = None"
| "flag_fields db target_application_id (field_id # field_ids) =
     (case find (\<lambda>r. md_application_id r = target_application_id \<and> md_field_id r = Some field_id)
             (module_data db) of
        None \<Rightarrow> flag_fields db target_application_id field_ids
      | Some field_row \<Rightarrow> Some msg_indeterminate_datatype)"

definition truthy_list :: "string list option \<Rightarrow> bool" where
  "truthy_list v = (case v of None \<Rightarrow> False | Some xs \<Rightarrow> xs \<noteq> [])"

definition request_audit ::
  "store \<Rightarrow> string \<Rightarrow> string \<Rightarrow> string option \<Rightarrow> string option \<Rightarrow> string list option
     \<Rightarrow> session_context option \<Rightarrow> payload \<times> store" where
  "request_audit db now reason application_id document_id field_ids session_context =
     (let target = resolve_application_id application_id session_context in
      if \<not> truthy_str target
      then (error_payload ''application_id_required''
              msg_application_id_required_long,
            db)
      else if \<not> truthy_str document_id \<and> \<not> truthy_list field_ids
      then (error_payload ''no_targets_specified''
              msg_no_targets, db)
      else
        let target_application_id = the target;
            user_id = context_user_id session_context
        in case fetch_application db target_application_id of
             None \<Rightarrow>
               (error_payload ''application_not_found''
                  (''Application '' @ target_application_id @ '' not found.''), db)
           | Some app_row \<Rightarrow>
               if truthy_str user_id \<and> app_user_id app_row \<noteq> the user_id
               then (error_payload ''unauthorized''
                       msg_unauthorized_flag, db)
               else
                 let doc_row =
                       (if truthy_str document_id
                        then find (\<lambda>d. doc_id d = the document_id
                                        \<and> doc_application_id d = target_application_id) (documents db)
                        else None)
                 in if truthy_str document_id \<and> doc_row = None
                    then (error_payload ''document_not_found''
                            (''Document '' @ the document_id @ '' not found in application ''
                             @ target_application_id @ ''.''), db)
                    else if truthy_str document_id
                    then (database_error msg_multiple_assignments, db)
                    else
                      (case (if truthy_list field_ids
                             then flag_fields db target_application_id (the field_ids)
                             else None) of
                         Some e \<Rightarrow> (database_error e, db)
                       | None \<Rightarrow>
                           let flagged_fields_count = (0 :: nat);
                               flagged_document = False;
                               audit_details = ([] :: string list);
                               db3 = (if truthy_str user_id
                                      then db\<lparr>audit_trail := audit_trail db @
                                             [\<lparr>au_application_id = target_application_id,
                                               au_user_id = the user_id,
                                               au_action = ''audit_requested'',
                                               au_field_id = (if truthy_list field_ids
                                                              then Some (join_with '', '' (the field_ids))
                                                              else None),
                                               au_new_value = reason,
                                               au_created_at = now\<rparr>]\<rparr>
                                      else db);
                               db4 = touch_application db3 now target_application_id
                           in ([(''success'', PBool True),
                                (''flagged_fields_count'', PInt (int flagged_fields_count)),
                                (''flagged_document'', PBool flagged_document),
                                (''reason'', PStr reason),
                                (''details'', PList (map PStr audit_details)),
                                (''message'', PStr (''Successfully flagged '' @ str_nat flagged_fields_count
                                    @ '' field(s) and '' @ (if flagged_document then ''1'' else ''0'')
                                    @ '' document(s) for manual audit review. Reason: '' @ reason))],
                               db4)))"

section \<open>Conditions named by the claims\<close>

text \<open>
  A call reaches the application's status check: the target id resolves from the argument
  or the session context, the application exists, and the caller (if the context names
  one) is its owner.
\<close>

definition reaches_application ::
  "store \<Rightarrow> string option \<Rightarrow> session_context option \<Rightarrow> string \<Rightarrow> application \<Rightarrow> bool" where
  "reaches_application db application_id session_context tid app_row =
     (resolve_application_id application_id session_context = Some tid \<and> tid \<noteq> []
      \<and> fetch_application db tid = Some app_row
      \<and> \<not> (truthy_str (context_user_id session_context)
              \<and> app_user_id app_row \<noteq> the (context_user_id session_context)))"

definition terminal_status :: "string \<Rightarrow> bool" where
  "terminal_status status = (status = ''approved'' \<or> status = ''rejected'')"

text \<open>The four checks of the certification gate, each stated on the store.\<close>

definition documents_unprocessed :: "store \<Rightarrow> string \<Rightarrow> bool" where
  "documents_unprocessed db tid =
     (\<exists>d \<in> set (documents db). doc_application_id d = tid
        \<and> doc_extraction_status d \<in> {Some ''pending'', Some ''processing'', Some ''error''})"

definition modules_missing :: "store \<Rightarrow> string \<Rightarrow> bool" where
  "modules_missing db tid =
     (\<exists>m \<in> {1, 2, 3, 4, 5}. \<not> (\<exists>r \<in> set (module_data db).
        md_application_id r = tid \<and> md_module_number r = Some m))"

definition fields_flagged :: "store \<Rightarrow> string \<Rightarrow> bool" where
  "fields_flagged db tid =
     (\<exists>r \<in> set (module_data db). md_application_id r = tid \<and> audit_flagged r)"

definition no_documents :: "store \<Rightarrow> string \<Rightarrow> bool" where
  "no_documents db tid = (\<not> (\<exists>d \<in> set (documents db). doc_application_id d = tid))"

definition checks_pass :: "store \<Rightarrow> string \<Rightarrow> bool" where
  "checks_pass db tid =
     (\<not> documents_unprocessed db tid \<and> \<not> modules_missing db tid
      \<and> \<not> fields_flagged db tid \<and> \<not> no_documents db tid)"


text \<open>The rows stored under one (application, module name, field name) key.\<close>

definition field_rows :: "store \<Rightarrow> string \<Rightarrow> string \<Rightarrow> string \<Rightarrow> module_field list" where
  "field_rows db tid module_name field_id =
     filter (\<lambda>r. md_application_id r = tid \<and> md_module_name r = Some module_name
                   \<and> md_field_name r = Some field_id) (module_data db)"

section \<open>Example inputs\<close>

text \<open>Inputs used to evaluate the registry and the tool loop.\<close>

definition example_clock :: registry_clock where
  "example_clock = \<lparr>start_time = 10, end_time = 12, utcnow_iso = ''2025-01-01T00:00:00''\<rparr>"

definition echo_handler :: tool_handler where
  "echo_handler tool_input ctx =
     (case map_of tool_input ''fail'' of
        None \<Rightarrow> Returned [(''success'', PBool True)]
      | Some (PStr ''type'') \<Rightarrow> RaisedTypeError ''missing 1 required positional argument''
      | Some (PStr ''error'') \<Rightarrow> Returned [(''error'', PStr ''application_not_found'')]
      | Some _ \<Rightarrow> RaisedException ''boom'')"

definition example_registry :: tool_registry where
  "example_registry = [(''echo'', echo_handler)]"

definition tool_use_response :: llm_response where
  "tool_use_response =
     \<lparr>stop_reason = Some ''tool_use'',
      resp_content = Some [\<lparr>blk_type = Some ''tool_use'', blk_id = Some ''t1'',
                             blk_name = Some ''echo'', blk_input = Some ''{}'', blk_text = None\<rparr>]\<rparr>"

definition final_response :: llm_response where
  "final_response =
     \<lparr>stop_reason = Some ''end_turn'',
      resp_content = Some [\<lparr>blk_type = Some ''text'', blk_id = None,
                             blk_name = None, blk_input = None, blk_text = Some ''done''\<rparr>]\<rparr>"

definition looping_model :: llm where
  "looping_model i c = Reply tool_use_response"

definition two_step_model :: llm where
  "two_step_model i c = (if i < 2 then Reply tool_use_response else Reply final_response)"

definition failing_model :: llm where
  "failing_model i c = HTTPStatusError ''503 Service Unavailable''"

text \<open>Stores and session contexts used to evaluate the handlers.\<close>

definition example_ctx :: session_context where
  "example_ctx = [(''user_id'', ''user-1''), (''application_id'', ''app-1'')]"

definition example_app :: application where
  "example_app =
     \<lparr>app_id = ''app-1'', app_user_id = ''user-1'', app_status = ''in_progress'',
      app_certification_type = ''organic'', app_notes = None,
      app_created_at = ''2025-01-01T00:00:00'', app_updated_at = ''2025-01-01T00:00:00''\<rparr>"

definition example_doc :: "string \<Rightarrow> document" where
  "example_doc status =
     \<lparr>doc_id = ''doc-1'', doc_application_id = ''app-1'', doc_document_type = ''tax_return'',
      doc_file_name = ''return.pdf'', doc_extraction_status = Some status,
      doc_ocr_status = Some status, doc_metadata = None, doc_extraction_metadata = None\<rparr>"

definition example_field :: "nat \<Rightarrow> int \<Rightarrow> string \<Rightarrow> json \<Rightarrow> module_field" where
  "example_field i module_number field_id v =
     \<lparr>md_id = i, md_application_id = ''app-1'', md_module_number = Some module_number,
      md_module_name = None, md_field_id = Some field_id, md_field_name = None,
      md_value = Some v, md_field_value = None, md_source = Some ''ocr_extracted'',
      md_data_source = None, md_confidence_score = Some (9 / 10),
      md_created_at = Some ''2025-01-01T00:00:00'', md_updated_at = Some ''2025-01-01T00:00:00''\<rparr>"

definition five_modules :: "module_field list" where
  "five_modules =
     [example_field 1 1 ''total_revenue'' (JStr ''125000''),
      example_field 2 2 ''license_number'' (JStr ''L-77''),
      example_field 3 3 ''sites'' (JObj [(''count'', JNum 2)]),
      example_field 4 4 ''water_plan'' (JStr ''yes''),
      example_field 5 5 ''insurance'' (JStr ''full'')]"

text \<open>
  An application missing modules 4 and 5, with one pending document and one flagged field.
\<close>

definition gate_store :: store where
  "gate_store =
     \<lparr>applications = [example_app],
      documents = [example_doc ''pending''],
      module_data =
        [example_field 1 1 ''total_revenue''
           (JObj [(''_value'', JStr ''125000''), (''_audit_flagged'', JBool True)]),
         example_field 2 2 ''license_number'' (JStr ''L-77''),
         example_field 3 3 ''sites'' (JObj [(''count'', JNum 2)])],
      audit_trail = []\<rparr>"

text \<open>An application that passes the four checks, and the same with its document failed.\<close>

definition ready_store :: store where
  "ready_store =
     \<lparr>applications = [example_app], documents = [example_doc ''processed''],
      module_data = five_modules, audit_trail = []\<rparr>"

definition failed_docs_store :: store where
  "failed_docs_store =
     \<lparr>applications = [example_app], documents = [example_doc ''failed''],
      module_data = five_modules, audit_trail = []\<rparr>"

text \<open>The ready application after certification.\<close>

definition approved_store :: store where
  "approved_store =
     \<lparr>applications = [example_app\<lparr>app_status := ''approved''\<rparr>],
      documents = [example_doc ''processed''],
      module_data = five_modules, audit_trail = []\<rparr>"

text \<open>An application without module fields, for \<open>update_module\<close>.\<close>

definition empty_store :: store where
  "empty_store =
     \<lparr>applications = [example_app], documents = [], module_data = [], audit_trail = []\<rparr>"



section \<open>Properties of the history manager\<close>

lemma prepend_older_shape:
  "\<exists>n \<le> length older.
     prepend_older h older t = rev (take n older) @ t
     \<and> (\<forall>j. 0 < j \<and> j \<le> n \<longrightarrow> estimate_tokens h (rev (take j older) @ t) \<le> max_tokens h)
     \<and> (n < length older \<longrightarrow> max_tokens h < estimate_tokens h (rev (take (Suc n) older) @ t))"
proof (induction older arbitrary: t)
  case Nil
  show ?case by simp
next
  case (Cons msg older)
  show ?case
  proof (cases "estimate_tokens h (msg # t) \<le> max_tokens h")
    case False
    then show ?thesis by (intro exI [of _ 0]) simp
  next
    case True
    from Cons.IH [of "msg # t"] obtain n where n: "n \<le> length older"
      "prepend_older h older (msg # t) = rev (take n older) @ msg # t"
      "\<forall>j. 0 < j \<and> j \<le> n \<longrightarrow> estimate_tokens h (rev (take j older) @ msg # t) \<le> max_tokens h"
      "n < length older \<longrightarrow> max_tokens h < estimate_tokens h (rev (take (Suc n) older) @ msg # t)"
      by blast
    have fit: "estimate_tokens h (rev (take j (msg # older)) @ t) \<le> max_tokens h"
      if "0 < j" "j \<le> Suc n" for j
    proof (cases j)
      case 0
      with that show ?thesis by simp
    next
      case (Suc k)
      show ?thesis
      proof (cases k)
        case 0
        with Suc True show ?thesis by simp
      next
        case (Suc k')
        with \<open>j = Suc k\<close> that n(3) show ?thesis by simp
      qed
    qed
    show ?thesis
      using True n(1,2,4) fit by (intro exI [of _ "Suc n"]) simp
  qed
qed

lemma rev_take_rev_append:
  "j \<le> length rem \<Longrightarrow> rev (take j (rev rem)) @ kept = drop (length rem - j) (rem @ kept)"
  by (simp add: take_rev)

lemma truncate_to_fit_window:
  assumes over: "max_tokens h < estimate_tokens h messages" and keep: "0 < keep"
  shows "\<exists>n. min (nat keep) (length messages) \<le> n \<and> n \<le> length messages
     \<and> truncate_to_fit h messages keep = drop (length messages - n) messages
     \<and> (\<forall>j. min (nat keep) (length messages) < j \<and> j \<le> n \<longrightarrow>
            estimate_tokens h (drop (length messages - j) messages) \<le> max_tokens h)
     \<and> (n < length messages \<longrightarrow>
            max_tokens h < estimate_tokens h (drop (length messages - Suc n) messages))"
proof (cases "int (length messages) > keep")
  case False
  from over False have "truncate_to_fit h messages keep = messages"
    by (cases "messages = []") (simp_all add: truncate_to_fit_def)
  moreover from False keep have "min (nat keep) (length messages) = length messages" by linarith
  ultimately show ?thesis by (intro exI [of _ "length messages"]) simp
next
  case True
  define k where "k = nat keep"
  define rem where "rem = take (length messages - k) messages"
  define kept where "kept = drop (length messages - k) messages"
  from True keep have k: "0 < k" "k < length messages" by (simp_all add: k_def)
  have split: "messages = rem @ kept" by (simp add: rem_def kept_def)
  have lens: "length rem = length messages - k" "length kept = k"
    using k by (simp_all add: rem_def kept_def)
  from k have ne: "messages \<noteq> []" by auto
  have res: "truncate_to_fit h messages keep = prepend_older h (rev rem) kept"
    using over ne True keep
    by (simp add: truncate_to_fit_def slice_from_neg_def slice_to_neg_def rem_def kept_def k_def)
  from prepend_older_shape [of "rev rem" h kept] obtain n where n:
    "n \<le> length rem"
    "prepend_older h (rev rem) kept = rev (take n (rev rem)) @ kept"
    "\<forall>j. 0 < j \<and> j \<le> n \<longrightarrow> estimate_tokens h (rev (take j (rev rem)) @ kept) \<le> max_tokens h"
    "n < length rem \<longrightarrow> max_tokens h < estimate_tokens h (rev (take (Suc n) (rev rem)) @ kept)"
    by auto
  have conv: "rev (take j (rev rem)) @ kept = drop (length messages - (k + j)) messages"
    if "j \<le> length rem" for j
  proof -
    have "rev (take j (rev rem)) @ kept = drop (length rem - j) (rem @ kept)"
      by (rule rev_take_rev_append [OF that])
    also have "rem @ kept = messages" by (rule split [symmetric])
    also have "length rem - j = length messages - (k + j)" by (simp add: lens(1))
    finally show ?thesis .
  qed
  have mink: "min (nat keep) (length messages) = k" using k by (simp add: k_def)
  show ?thesis
  proof (intro exI [of _ "k + n"] conjI allI impI)
    show "min (nat keep) (length messages) \<le> k + n" using mink by simp
    show "k + n \<le> length messages" using n(1) lens k by simp
    show "truncate_to_fit h messages keep = drop (length messages - (k + n)) messages"
      using res n(2) conv [OF n(1)] by simp
  next
    fix j assume j: "min (nat keep) (length messages) < j \<and> j \<le> k + n"
    then have "0 < j - k" "j - k \<le> n" "j - k \<le> length rem" "k + (j - k) = j"
      using mink n(1) by auto
    with n(3) conv [of "j - k"]
    show "estimate_tokens h (drop (length messages - j) messages) \<le> max_tokens h"
      by (metis)
  next
    assume "k + n < length messages"
    then have "n < length rem" "Suc n \<le> length rem" using lens by simp_all
    with n(4) conv [of "Suc n"]
    show "max_tokens h < estimate_tokens h (drop (length messages - Suc (k + n)) messages)"
      by simp
  qed
qed


text \<open>
  Claim C5, as the code has it. For a history over the budget and a window size
  \<open>keep_most_recent \<ge> 1\<close>, \<open>truncate_to_fit\<close> returns a suffix of the input that contains the
  most recent \<open>keep_most_recent\<close> messages; older messages are prepended one at a time while
  the estimate stays within the budget, and the first one that would exceed it ends the
  walk. The result is within the budget whenever the most recent window itself is.
\<close>

theorem truncate_to_fit_recent_suffix:
  assumes over: "max_tokens h < estimate_tokens h messages" and keep: "0 < keep_most_recent"
  shows "suffix (drop (length messages - nat keep_most_recent) messages)
           (truncate_to_fit h messages keep_most_recent)
       \<and> suffix (truncate_to_fit h messages keep_most_recent) messages
       \<and> (estimate_tokens h (drop (length messages - nat keep_most_recent) messages) \<le> max_tokens h
            \<longrightarrow> estimate_tokens h (truncate_to_fit h messages keep_most_recent) \<le> max_tokens h)
       \<and> (\<forall>j. min (nat keep_most_recent) (length messages) < j
                \<and> j \<le> length (truncate_to_fit h messages keep_most_recent)
              \<longrightarrow> estimate_tokens h (drop (length messages - j) messages) \<le> max_tokens h)
       \<and> (length (truncate_to_fit h messages keep_most_recent) < length messages
            \<longrightarrow> max_tokens h < estimate_tokens h
                  (drop (length messages - Suc (length (truncate_to_fit h messages keep_most_recent)))
                     messages))"
proof -
  define k where "k = min (nat keep_most_recent) (length messages)"
  from truncate_to_fit_window [OF over keep] obtain n where n:
    "k \<le> n" "n \<le> length messages"
    "truncate_to_fit h messages keep_most_recent = drop (length messages - n) messages"
    "\<forall>j. k < j \<and> j \<le> n \<longrightarrow> estimate_tokens h (drop (length messages - j) messages) \<le> max_tokens h"
    "n < length messages \<longrightarrow> max_tokens h < estimate_tokens h (drop (length messages - Suc n) messages)"
    unfolding k_def by blast
  have len: "length (truncate_to_fit h messages keep_most_recent) = n"
    using n(2,3) by simp
  have win: "drop (length messages - nat keep_most_recent) messages = drop (length messages - k) messages"
    by (simp add: k_def min_def)
  have "drop (length messages - k) messages
          = drop ((length messages - k) - (length messages - n)) (drop (length messages - n) messages)"
    using n(1,2) by simp
  then have a: "suffix (drop (length messages - nat keep_most_recent) messages)
                  (truncate_to_fit h messages keep_most_recent)"
    unfolding win n(3) by (metis suffix_drop)
  have c: "suffix (truncate_to_fit h messages keep_most_recent) messages"
    unfolding n(3) by (rule suffix_drop)
  have b: "estimate_tokens h (truncate_to_fit h messages keep_most_recent) \<le> max_tokens h"
    if fits: "estimate_tokens h (drop (length messages - nat keep_most_recent) messages) \<le> max_tokens h"
  proof (cases "n = k")
    case True
    with fits show ?thesis unfolding n(3) win by simp
  next
    case False
    with n(1) have "k < n \<and> n \<le> n" by simp
    with n(4) show ?thesis unfolding n(3) by blast
  qed
  show ?thesis
    using a b c n(4,5) unfolding len k_def by blast
qed

theorem truncate_to_fit_recent_suffix_witness:
  "max_tokens tiny_manager < estimate_tokens tiny_manager history_example
   \<and> (0::int) < 1
   \<and> truncate_to_fit tiny_manager history_example 1 = [msg_of ''assistant'' '''', msg_of ''user'' ''cccccc'']
   \<and> suffix [msg_of ''user'' ''cccccc''] (truncate_to_fit tiny_manager history_example 1)
   \<and> suffix (truncate_to_fit tiny_manager history_example 1) history_example
   \<and> estimate_tokens tiny_manager (truncate_to_fit tiny_manager history_example 1) \<le> max_tokens tiny_manager"
proof -
  have over: "max_tokens tiny_manager < estimate_tokens tiny_manager history_example"
    by code_simp
  have keep: "(0::int) < 1" by simp
  have res: "truncate_to_fit tiny_manager history_example 1
               = [msg_of ''assistant'' '''', msg_of ''user'' ''cccccc'']"
    by code_simp
  have recent: "drop (length history_example - nat 1) history_example = [msg_of ''user'' ''cccccc'']"
    by (simp add: history_example_def)
  have fits: "estimate_tokens tiny_manager [msg_of ''user'' ''cccccc''] \<le> max_tokens tiny_manager"
    by code_simp
  from truncate_to_fit_recent_suffix [OF over keep] fits
  show ?thesis using over res unfolding recent by simp
qed

text \<open>
  Claim C5 as stated, part (b): a single message larger than the budget is the whole of
  the most recent window, is kept, and the result exceeds the budget.
\<close>

theorem truncate_to_fit_budget_counterexample:
  "max_tokens tiny_manager < estimate_tokens tiny_manager oversized_example
   \<and> \<not> estimate_tokens tiny_manager (truncate_to_fit tiny_manager oversized_example 10)
         \<le> max_tokens tiny_manager"
  by code_simp

lemma alternation_loop_Some:
  "p = ''user'' \<or> p = ''assistant'' \<Longrightarrow>
   (alternation_loop (Some p) idx ms = None) =
   (\<forall>i < length ms. dict_get (ms ! i) ''role'' = Some (if even i then other_role p else p))"
proof (induction ms arbitrary: p idx)
  case Nil
  show ?case by simp
next
  case (Cons m ms)
  show ?case
  proof (cases "dict_get m ''role'' = Some (other_role p)")
    case True
    have o: "other_role p = ''user'' \<or> other_role p = ''assistant''" "other_role (other_role p) = p"
      "other_role p \<noteq> p"
      using Cons.prems by (auto simp: other_role_def)
    have "(alternation_loop (Some p) idx (m # ms) = None) =
          (alternation_loop (Some (other_role p)) (Suc idx) ms = None)"
      using True o Cons.prems by (auto simp: valid_role_def Let_def)
    also have "\<dots> = (\<forall>i < length ms. dict_get (ms ! i) ''role'' = Some (if even i then p else other_role p))"
      using Cons.IH [OF o(1)] o(2) by simp
    also have "\<dots> = (\<forall>i < length (m # ms). dict_get ((m # ms) ! i) ''role'' = Some (if even i then other_role p else p))"
      using True by (simp add: All_less_Suc2, blast)
    finally show ?thesis .
  next
    case False
    then have a: "(alternation_loop (Some p) idx (m # ms) = None) = False"
      using Cons.prems by (auto simp: valid_role_def Let_def other_role_def)
    have b: "(\<forall>i < length (m # ms). dict_get ((m # ms) ! i) ''role'' = Some (if even i then other_role p else p)) = False"
      using False by (simp add: All_less_Suc2)
    show ?thesis unfolding a b by (rule refl)
  qed
qed

lemma validate_alternation_iff:
  "fst (validate_alternation ms) = alternates_from_user ms"
proof (cases ms)
  case Nil
  then show ?thesis by (simp add: validate_alternation_def alternates_from_user_def)
next
  case (Cons m rest)
  show ?thesis
  proof (cases "dict_get m ''role'' = Some ''user''")
    case True
    have "alternation_loop None 0 (m # rest) = alternation_loop (Some ''user'') 1 rest"
      using True by (simp add: valid_role_def Let_def)
    moreover have "(alternation_loop (Some ''user'') 1 rest = None) =
       (\<forall>i < length rest. dict_get (rest ! i) ''role'' = Some (if even i then ''assistant'' else ''user''))"
      using alternation_loop_Some [of "''user''" 1 rest] by (simp add: other_role_def)
    moreover have "alternates_from_user (m # rest) =
       (\<forall>i < length rest. dict_get (rest ! i) ''role'' = Some (if even i then ''assistant'' else ''user''))"
      using True by (simp add: alternates_from_user_def All_less_Suc2, blast)
    ultimately show ?thesis
      using Cons True by (cases "alternation_loop (Some ''user'') 1 rest") (simp_all add: validate_alternation_def)
  next
    case False
    then have "\<not> alternates_from_user (m # rest)"
      by (simp add: alternates_from_user_def All_less_Suc2)
    moreover have "fst (validate_alternation (m # rest)) = False"
      using False by (simp add: validate_alternation_def split: option.splits)
    ultimately show ?thesis using Cons by simp
  qed
qed

text \<open>
  Claim C6. \<open>prepare_for_api\<close> returns the formatted list unchanged exactly when it
  alternates \<open>user\<close>, \<open>assistant\<close>, \<open>user\<close>, ... from its first message, and raises
  \<open>ValueError\<close> otherwise; nothing is repaired on the way.
\<close>

theorem prepare_for_api_alternation:
  "prepare_for_api h messages new_user_message auto_truncate =
     (let formatted = formatted_for_validation h messages new_user_message auto_truncate
      in if alternates_from_user formatted then Inr formatted
         else Inl (ValueError (''Invalid message sequence: ''
                     @ str_opt (snd (validate_alternation formatted)))))"
  using validate_alternation_iff [of "formatted_for_validation h messages new_user_message auto_truncate"]
  by (cases "validate_alternation (formatted_for_validation h messages new_user_message auto_truncate)")
     (auto simp: prepare_for_api_def Let_def)

theorem prepare_for_api_alternation_witness:
  "prepare_for_api tiny_manager [msg_of ''user'' ''hi'', msg_of ''assistant'' ''yes''] (Some ''go'') True
     = Inr [msg_of ''user'' ''hi'', msg_of ''assistant'' ''yes'', msg_of ''user'' ''go'']
   \<and> alternates_from_user [msg_of ''user'' ''hi'', msg_of ''assistant'' ''yes'', msg_of ''user'' ''go'']
   \<and> \<not> alternates_from_user [msg_of ''user'' ''hi'', msg_of ''user'' ''go'']
   \<and> prepare_for_api tiny_manager [msg_of ''user'' ''hi''] (Some ''go'') True
     = Inl (ValueError ''Invalid message sequence: Non-alternating roles at index 1: user -> user'')"
proof -
  have f1: "formatted_for_validation tiny_manager [msg_of ''user'' ''hi'', msg_of ''assistant'' ''yes'']
              (Some ''go'') True
            = [msg_of ''user'' ''hi'', msg_of ''assistant'' ''yes'', msg_of ''user'' ''go'']"
    by code_simp
  have f2: "formatted_for_validation tiny_manager [msg_of ''user'' ''hi''] (Some ''go'') True
            = [msg_of ''user'' ''hi'', msg_of ''user'' ''go'']"
    by code_simp
  have a1: "alternates_from_user [msg_of ''user'' ''hi'', msg_of ''assistant'' ''yes'', msg_of ''user'' ''go'']"
    unfolding validate_alternation_iff [symmetric] by code_simp
  have a2: "\<not> alternates_from_user [msg_of ''user'' ''hi'', msg_of ''user'' ''go'']"
    unfolding validate_alternation_iff [symmetric] by code_simp
  have e2: "snd (validate_alternation [msg_of ''user'' ''hi'', msg_of ''user'' ''go''])
            = Some ''Non-alternating roles at index 1: user -> user''"
    by code_simp
  have s2: "''Invalid message sequence: '' @ str_opt (Some ''Non-alternating roles at index 1: user -> user'')
            = ''Invalid message sequence: Non-alternating roles at index 1: user -> user''"
    by (simp add: str_opt_def)
  have r1: "prepare_for_api tiny_manager [msg_of ''user'' ''hi'', msg_of ''assistant'' ''yes''] (Some ''go'') True
     = Inr [msg_of ''user'' ''hi'', msg_of ''assistant'' ''yes'', msg_of ''user'' ''go'']"
    using prepare_for_api_alternation [of tiny_manager "[msg_of ''user'' ''hi'', msg_of ''assistant'' ''yes'']" "Some ''go''" True]
    unfolding f1 Let_def by (simp only: a1 if_True)
  have r2: "prepare_for_api tiny_manager [msg_of ''user'' ''hi''] (Some ''go'') True
     = Inl (ValueError ''Invalid message sequence: Non-alternating roles at index 1: user -> user'')"
    using prepare_for_api_alternation [of tiny_manager "[msg_of ''user'' ''hi'']" "Some ''go''" True]
    unfolding f2 Let_def e2 s2 by (simp only: a2 if_False)
  from r1 a1 a2 r2 show ?thesis by (intro conjI)
qed

section \<open>Properties of the registry and of the tool loop\<close>

text \<open>
  What \<open>execute_tool\<close> returns in each of its four branches. An unregistered name gives the
  \<open>tool_not_found\<close> payload with the known names; a registered handler's outcome is
  classified as success, handler-reported failure (\<open>error\<close> key present), \<open>invalid_input\<close>
  (\<open>TypeError\<close>) or \<open>execution_error\<close> (any other exception). Tool name and execution time are
  set in every branch, the timestamp in all but the first.
\<close>

lemma execute_tool_classification:
  "(map_of tools tool_name = None \<longrightarrow>
      (let r = execute_tool tools clk tool_name tool_input ctx
       in \<not> tr_success r \<and> tr_result r = None
          \<and> map_option err_type (tr_error r) = Some ''tool_not_found''
          \<and> Option.bind (tr_error r) err_available_tools = Some (map fst tools)
          \<and> tr_tool_name r = tool_name
          \<and> tr_execution_time r = end_time clk - start_time clk
          \<and> tr_timestamp r = None))
   \<and> (\<forall>h. map_of tools tool_name = Some h \<longrightarrow>
      (let called = (if truthy_ctx ctx then h tool_input ctx else h tool_input None);
           r = execute_tool tools clk tool_name tool_input ctx
       in tr_tool_name r = tool_name
          \<and> tr_execution_time r = end_time clk - start_time clk
          \<and> tr_timestamp r = Some (utcnow_iso clk)
          \<and> (case called of
                Returned result \<Rightarrow>
                  tr_result r = Some result \<and> tr_error r = None
                  \<and> tr_success r = (map_of result ''error'' = None)
              | RaisedTypeError e \<Rightarrow>
                  \<not> tr_success r \<and> tr_result r = None
                  \<and> map_option err_type (tr_error r) = Some ''invalid_input''
              | RaisedException e \<Rightarrow>
                  \<not> tr_success r \<and> tr_result r = None
                  \<and> map_option err_type (tr_error r) = Some ''execution_error'')))"
  by (auto simp: execute_tool_def Let_def split: handler_outcome.splits)


text \<open>
  Claim C4 at an unregistered name: the returned dict has no \<open>timestamp\<close> key, while the
  three branches behind a registered handler set one.
\<close>

theorem execute_tool_not_found_timestamp:
  "map_of example_registry ''no_such_tool'' = None
   \<and> map_option err_type (tr_error (execute_tool example_registry example_clock ''no_such_tool'' [] None))
       = Some ''tool_not_found''
   \<and> tr_timestamp (execute_tool example_registry example_clock ''no_such_tool'' [] None) = None
   \<and> tr_timestamp (execute_tool example_registry example_clock ''echo'' [] None)
       = Some ''2025-01-01T00:00:00''
   \<and> tr_timestamp (execute_tool example_registry example_clock ''echo'' [(''fail'', PStr ''type'')] None)
       = Some ''2025-01-01T00:00:00''
   \<and> tr_timestamp (execute_tool example_registry example_clock ''echo'' [(''fail'', PStr ''other'')] None)
       = Some ''2025-01-01T00:00:00''"
  by (simp add: execute_tool_def example_registry_def example_clock_def echo_handler_def truthy_ctx_def)


lemma tool_loop_exceeds:
  "(\<And>j c. j < remaining \<Longrightarrow> \<exists>r. model (iteration + j) c = Reply r \<and> stop_reason r = Some ''tool_use'')
   \<Longrightarrow> tool_loop model max_iterations remaining iteration messages =
       Inl (RuntimeError (''Tool execution loop exceeded max iterations: '' @ str_int max_iterations))"
proof (induction remaining arbitrary: iteration messages)
  case 0
  show ?case by simp
next
  case (Suc remaining)
  from Suc.prems [of 0 "snd (last messages)"] obtain r where
    r: "model iteration (snd (last messages)) = Reply r" "stop_reason r = Some ''tool_use''"
    by auto
  have "\<exists>r. model (Suc iteration + j) c = Reply r \<and> stop_reason r = Some ''tool_use''"
    if "j < remaining" for j c
    using Suc.prems [of "Suc j" c] that by simp
  from Suc.IH [OF this] r show ?case by simp
qed

lemma tool_loop_returns:
  "k < remaining \<Longrightarrow>
   (\<And>j c. j < k \<Longrightarrow> \<exists>r. model (iteration + j) c = Reply r \<and> stop_reason r = Some ''tool_use'') \<Longrightarrow>
   (\<And>c. \<exists>r. model (iteration + k) c = Reply r \<and> stop_reason r \<noteq> Some ''tool_use'') \<Longrightarrow>
   \<exists>c r. tool_loop model max_iterations remaining iteration messages = Inr r
         \<and> model (iteration + k) c = Reply r \<and> stop_reason r \<noteq> Some ''tool_use''"
proof (induction remaining arbitrary: iteration messages k)
  case 0
  then show ?case by simp
next
  case (Suc remaining)
  show ?case
  proof (cases k)
    case 0
    from Suc.prems(3) [of "snd (last messages)"] 0 obtain r where
      "model iteration (snd (last messages)) = Reply r" "stop_reason r \<noteq> Some ''tool_use''"
      by auto
    then show ?thesis using 0 by (intro exI [of _ "snd (last messages)"] exI [of _ r]) simp
  next
    case (Suc k')
    from Suc.prems(2) [of 0 "snd (last messages)"] Suc obtain r where
      r: "model iteration (snd (last messages)) = Reply r" "stop_reason r = Some ''tool_use''"
      by auto
    have a: "k' < remaining" using Suc.prems(1) Suc by simp
    have b: "\<exists>r. model (Suc iteration + j) c = Reply r \<and> stop_reason r = Some ''tool_use''"
      if "j < k'" for j c
      using Suc.prems(2) [of "Suc j" c] that Suc by simp
    have c: "\<exists>r. model (Suc iteration + k') c = Reply r \<and> stop_reason r \<noteq> Some ''tool_use''" for c
      using Suc.prems(3) [of c] Suc by simp
    from Suc.IH [OF a b c] r Suc show ?thesis by simp
  qed
qed

lemma tool_loop_propagates:
  "k < remaining \<Longrightarrow>
   (\<And>j c. j < k \<Longrightarrow> \<exists>r. model (iteration + j) c = Reply r \<and> stop_reason r = Some ''tool_use'') \<Longrightarrow>
   (\<And>c. model (iteration + k) c = HTTPStatusError e) \<Longrightarrow>
   tool_loop model max_iterations remaining iteration messages = Inl (HTTPError e)"
proof (induction remaining arbitrary: iteration messages k)
  case 0
  then show ?case by simp
next
  case (Suc remaining)
  show ?case
  proof (cases k)
    case 0
    with Suc.prems(3) [of "snd (last messages)"] show ?thesis by simp
  next
    case (Suc k')
    from Suc.prems(2) [of 0 "snd (last messages)"] Suc obtain r where
      r: "model iteration (snd (last messages)) = Reply r" "stop_reason r = Some ''tool_use''"
      by auto
    have a: "k' < remaining" using Suc.prems(1) Suc by simp
    have b: "\<exists>r. model (Suc iteration + j) c = Reply r \<and> stop_reason r = Some ''tool_use''"
      if "j < k'" for j c
      using Suc.prems(2) [of "Suc j" c] that Suc by simp
    have c: "model (Suc iteration + k') c = HTTPStatusError e" for c
      using Suc.prems(3) [of c] Suc by simp
    from Suc.IH [OF a b c] r show ?thesis by simp
  qed
qed

text \<open>
  Claim C9, as the code has it. With \<open>n = max_iterations\<close> (default 5): when each of the
  first \<open>n\<close> calls returns a reply whose stop reason is \<open>tool_use\<close>, the loop raises
  \<open>RuntimeError\<close> (tool loop exceeded); when call \<open>k < n\<close> is the first whose reply has another
  stop reason, that reply is returned; when call \<open>k < n\<close> is the first to fail in
  \<open>send_message\<close>, its error propagates to the caller as well.
\<close>

theorem execute_with_tools_outcomes:
  "((\<forall>j c. j < nat max_iterations \<longrightarrow>
        (\<exists>r. model j c = Reply r \<and> stop_reason r = Some ''tool_use''))
     \<longrightarrow> execute_with_tools model message max_iterations =
           Inl (RuntimeError (''Tool execution loop exceeded max iterations: '' @ str_int max_iterations)))
   \<and> (\<forall>k. k < nat max_iterations
          \<and> (\<forall>j c. j < k \<longrightarrow> (\<exists>r. model j c = Reply r \<and> stop_reason r = Some ''tool_use''))
          \<and> (\<forall>c. \<exists>r. model k c = Reply r \<and> stop_reason r \<noteq> Some ''tool_use'')
        \<longrightarrow> (\<exists>c r. execute_with_tools model message max_iterations = Inr r
                  \<and> model k c = Reply r \<and> stop_reason r \<noteq> Some ''tool_use''))
   \<and> (\<forall>k e. k < nat max_iterations
          \<and> (\<forall>j c. j < k \<longrightarrow> (\<exists>r. model j c = Reply r \<and> stop_reason r = Some ''tool_use''))
          \<and> (\<forall>c. model k c = HTTPStatusError e)
        \<longrightarrow> execute_with_tools model message max_iterations = Inl (HTTPError e))"
proof (intro conjI allI impI)
  assume "\<forall>j c. j < nat max_iterations \<longrightarrow> (\<exists>r. model j c = Reply r \<and> stop_reason r = Some ''tool_use'')"
  then show "execute_with_tools model message max_iterations =
      Inl (RuntimeError (''Tool execution loop exceeded max iterations: '' @ str_int max_iterations))"
    unfolding execute_with_tools_def by (intro tool_loop_exceeds) simp
next
  fix k
  assume h: "k < nat max_iterations
          \<and> (\<forall>j c. j < k \<longrightarrow> (\<exists>r. model j c = Reply r \<and> stop_reason r = Some ''tool_use''))
          \<and> (\<forall>c. \<exists>r. model k c = Reply r \<and> stop_reason r \<noteq> Some ''tool_use'')"
  from tool_loop_returns [of k "nat max_iterations" model 0 max_iterations "[(''user'', TextContent message)]"] h
  show "\<exists>c r. execute_with_tools model message max_iterations = Inr r
                  \<and> model k c = Reply r \<and> stop_reason r \<noteq> Some ''tool_use''"
    unfolding execute_with_tools_def by simp
next
  fix k e
  assume h: "k < nat max_iterations
          \<and> (\<forall>j c. j < k \<longrightarrow> (\<exists>r. model j c = Reply r \<and> stop_reason r = Some ''tool_use''))
          \<and> (\<forall>c. model k c = HTTPStatusError e)"
  from tool_loop_propagates [of k "nat max_iterations" model 0 e max_iterations "[(''user'', TextContent message)]"] h
  show "execute_with_tools model message max_iterations = Inl (HTTPError e)"
    unfolding execute_with_tools_def by simp
qed


theorem execute_with_tools_outcomes_witness:
  "execute_with_tools looping_model ''hi'' 5
     = Inl (RuntimeError ''Tool execution loop exceeded max iterations: 5'')
   \<and> execute_with_tools two_step_model ''hi'' 5 = Inr final_response
   \<and> execute_with_tools failing_model ''hi'' 5 = Inl (HTTPError ''503 Service Unavailable'')"
proof -
  have s5: "''Tool execution loop exceeded max iterations: '' @ str_int 5
            = ''Tool execution loop exceeded max iterations: 5''"
    by code_simp
  have n5: "nat 5 = 5" by simp
  have l: "\<forall>j c. j < nat 5 \<longrightarrow> (\<exists>r. looping_model j c = Reply r \<and> stop_reason r = Some ''tool_use'')"
    by (simp add: looping_model_def tool_use_response_def)
  have t1: "\<forall>j c. j < 2 \<longrightarrow> (\<exists>r. two_step_model j c = Reply r \<and> stop_reason r = Some ''tool_use'')"
    by (simp add: two_step_model_def tool_use_response_def)
  have t2: "\<forall>c. \<exists>r. two_step_model 2 c = Reply r \<and> stop_reason r \<noteq> Some ''tool_use''"
    by (simp add: two_step_model_def final_response_def)
  have f0: "\<forall>j c. j < (0::nat) \<longrightarrow> (\<exists>r. failing_model j c = Reply r \<and> stop_reason r = Some ''tool_use'')"
    by simp
  have f1: "\<forall>c. failing_model 0 c = HTTPStatusError ''503 Service Unavailable''"
    by (simp add: failing_model_def)
  note looping = execute_with_tools_outcomes [of 5 looping_model "''hi''", THEN conjunct1, rule_format]
  have a: "execute_with_tools looping_model ''hi'' 5
             = Inl (RuntimeError ''Tool execution loop exceeded max iterations: 5'')"
    using looping l unfolding s5 by blast
  note two_step = execute_with_tools_outcomes [of 5 two_step_model "''hi''",
                    THEN conjunct2, THEN conjunct1, rule_format, of 2]
  have "\<exists>c r. execute_with_tools two_step_model ''hi'' 5 = Inr r
                  \<and> two_step_model 2 c = Reply r \<and> stop_reason r \<noteq> Some ''tool_use''"
    by (rule two_step) (intro conjI t1 t2, simp)
  then obtain c r where cr: "execute_with_tools two_step_model ''hi'' 5 = Inr r"
      "two_step_model 2 c = Reply r"
    by blast
  from cr(2) have "r = final_response" by (simp add: two_step_model_def)
  with cr(1) have b: "execute_with_tools two_step_model ''hi'' 5 = Inr final_response"
    by simp
  note failing = execute_with_tools_outcomes [of 5 failing_model "''hi''",
                   THEN conjunct2, THEN conjunct2, rule_format, of 0 "''503 Service Unavailable''"]
  have c: "execute_with_tools failing_model ''hi'' 5 = Inl (HTTPError ''503 Service Unavailable'')"
    by (rule failing) (intro conjI f0 f1, simp)
  from a b c show ?thesis by (intro conjI)
qed

text \<open>
  Claim C9 as stated: a run whose first call fails in \<open>send_message\<close> neither raises the
  tool-loop error nor returns a reply; the transport error reaches the caller.
\<close>

theorem execute_with_tools_counterexample:
  "execute_with_tools failing_model ''hi'' 5 = Inl (HTTPError ''503 Service Unavailable'')
   \<and> execute_with_tools failing_model ''hi'' 5
       \<noteq> Inl (RuntimeError ''Tool execution loop exceeded max iterations: 5'')
   \<and> isl (execute_with_tools failing_model ''hi'' 5)"
  by code_simp

section \<open>Properties of the certification gate\<close>

lemma truthy_str_Some: "truthy_str (Some s) = (s \<noteq> [])"
  by (simp add: truthy_str_def)

lemma count_pos_iff: "(0 < length (filter P xs)) = (\<exists>x \<in> set xs. P x)"
  by (induction xs) auto

lemma documents_unprocessed_iff:
  "documents_unprocessed db tid =
     (0 < doc_status_count db tid ''pending'' \<or> 0 < doc_status_count db tid ''processing''
      \<or> 0 < doc_status_count db tid ''error'')"
  unfolding documents_unprocessed_def doc_status_count_def count_pos_iff insert_iff empty_iff
  by blast

lemma module_number_present:
  "(Some m \<in> set (remdups (map md_module_number (filter P rows)))) =
   (\<exists>r \<in> set rows. P r \<and> md_module_number r = Some m)"
  by (simp add: image_iff) metis

lemma modules_missing_iff: "modules_missing db tid = (missing_modules db tid \<noteq> [])"
  unfolding modules_missing_def missing_modules_def Let_def filter_empty_conv module_number_present
  by simp

lemma fields_flagged_iff: "fields_flagged db tid = (0 < flagged_count db tid)"
  unfolding fields_flagged_def flagged_count_def count_pos_iff by simp

lemma no_documents_iff: "no_documents db tid = (total_docs db tid = 0)"
  by (simp add: no_documents_def total_docs_def filter_empty_conv)


lemma validation_failures_members:
  "(0 < doc_status_count db tid ''pending'' \<longrightarrow>
      pending_message (doc_status_count db tid ''pending'') \<in> set (validation_failures db tid))
   \<and> (0 < doc_status_count db tid ''processing'' \<longrightarrow>
      processing_message (doc_status_count db tid ''processing'') \<in> set (validation_failures db tid))
   \<and> (0 < doc_status_count db tid ''error'' \<longrightarrow>
      failed_message (doc_status_count db tid ''error'') \<in> set (validation_failures db tid))
   \<and> (missing_modules db tid \<noteq> [] \<longrightarrow>
      missing_modules_message (missing_modules db tid) \<in> set (validation_failures db tid))
   \<and> (0 < flagged_count db tid \<longrightarrow>
      flagged_message (flagged_count db tid) \<in> set (validation_failures db tid))
   \<and> (total_docs db tid = 0 \<longrightarrow> no_documents_message \<in> set (validation_failures db tid))"
  by (simp add: validation_failures_def Let_def)

lemma validation_failures_empty_iff:
  "(validation_failures db tid = []) =
   (doc_status_count db tid ''pending'' = 0 \<and> doc_status_count db tid ''processing'' = 0
    \<and> doc_status_count db tid ''error'' = 0 \<and> missing_modules db tid = []
    \<and> flagged_count db tid = 0 \<and> 0 < total_docs db tid)"
  by (simp add: validation_failures_def Let_def)

lemma certify_application_gate:
  assumes "certification_confirmed"
    and "resolve_application_id application_id session_context = Some tid" and "tid \<noteq> []"
    and "fetch_application db tid = Some app_row"
    and "\<not> (truthy_str (context_user_id session_context)
            \<and> app_user_id app_row \<noteq> the (context_user_id session_context))"
    and "app_status app_row \<noteq> ''approved''" and "app_status app_row \<noteq> ''rejected''"
    and "validation_failures db tid \<noteq> []"
  shows "certify_application db now certification_confirmed application_id session_context =
           ([(''error'', PStr ''validation_failed''),
             (''message'', PStr msg_validation_failed),
             (''validation_failures'', PList (map PStr (validation_failures db tid))),
             (''application_id'', PStr (app_id app_row)),
             (''current_status'', PStr (app_status app_row))], db)"
  using assms by (auto simp: certify_application_def truthy_str_Some Let_def)


lemma find_map_update:
  assumes "find (\<lambda>a. key a = t) xs = Some a" and "\<And>x. key (g x) = key x"
  shows "find (\<lambda>a. key a = t) (map (\<lambda>x. if key x = t then g x else x) xs) = Some (g a)"
  using assms by (induction xs) (auto split: if_splits)

lemma filter_map_others:
  "filter (\<lambda>a. key a \<noteq> t) (map (\<lambda>x. if key x = t then g x else x) xs) = filter (\<lambda>a. key a \<noteq> t) xs"
  if "\<And>x. key (g x) = key x"
  using that by (induction xs) auto

text \<open>
  Claim C1. A confirmed call that reaches an application in a non-terminal status with at
  least one failing check returns \<open>validation_failed\<close> with one list that holds the message of
  every failing check, and returns the store as it was.
\<close>

theorem certify_application_reports_every_failure:
  assumes confirmed: "certification_confirmed"
    and reaches: "reaches_application db application_id session_context tid app_row"
    and not_terminal: "\<not> terminal_status (app_status app_row)"
    and fails: "documents_unprocessed db tid \<or> modules_missing db tid
                \<or> fields_flagged db tid \<or> no_documents db tid"
  shows "\<exists>failures.
           certify_application db now certification_confirmed application_id session_context =
             ([(''error'', PStr ''validation_failed''),
               (''message'', PStr msg_validation_failed),
               (''validation_failures'', PList (map PStr failures)),
               (''application_id'', PStr (app_id app_row)),
               (''current_status'', PStr (app_status app_row))], db)
           \<and> (0 < doc_status_count db tid ''pending'' \<longrightarrow>
                 pending_message (doc_status_count db tid ''pending'') \<in> set failures)
           \<and> (0 < doc_status_count db tid ''processing'' \<longrightarrow>
                 processing_message (doc_status_count db tid ''processing'') \<in> set failures)
           \<and> (0 < doc_status_count db tid ''error'' \<longrightarrow>
                 failed_message (doc_status_count db tid ''error'') \<in> set failures)
           \<and> (modules_missing db tid \<longrightarrow>
                 missing_modules_message (missing_modules db tid) \<in> set failures)
           \<and> (fields_flagged db tid \<longrightarrow>
                 flagged_message (flagged_count db tid) \<in> set failures)
           \<and> (no_documents db tid \<longrightarrow> no_documents_message \<in> set failures)"
proof -
  from fails have ne: "validation_failures db tid \<noteq> []"
    unfolding validation_failures_empty_iff documents_unprocessed_iff modules_missing_iff
      fields_flagged_iff no_documents_iff
    by auto
  from reaches have r: "resolve_application_id application_id session_context = Some tid"
      "tid \<noteq> []" "fetch_application db tid = Some app_row"
      "\<not> (truthy_str (context_user_id session_context)
          \<and> app_user_id app_row \<noteq> the (context_user_id session_context))"
    unfolding reaches_application_def by simp_all
  from not_terminal have s: "app_status app_row \<noteq> ''approved''" "app_status app_row \<noteq> ''rejected''"
    unfolding terminal_status_def by simp_all
  note gate = certify_application_gate [OF confirmed r s ne]
  show ?thesis
    unfolding modules_missing_iff fields_flagged_iff no_documents_iff
    using gate validation_failures_members [of db tid]
    by (intro exI [of _ "validation_failures db tid"]) blast
qed

theorem certify_application_reports_every_failure_witness:
  "reaches_application gate_store None (Some example_ctx) ''app-1'' example_app
   \<and> \<not> terminal_status (app_status example_app)
   \<and> documents_unprocessed gate_store ''app-1'' \<and> modules_missing gate_store ''app-1''
   \<and> fields_flagged gate_store ''app-1''
   \<and> (\<exists>failures.
         certify_application gate_store ''2025-02-02T10:00:00'' True None (Some example_ctx) =
           ([(''error'', PStr ''validation_failed''),
             (''message'', PStr msg_validation_failed),
             (''validation_failures'', PList (map PStr failures)),
             (''application_id'', PStr ''app-1''),
             (''current_status'', PStr ''in_progress'')], gate_store)
         \<and> ''1 document(s) still pending processing'' \<in> set failures
         \<and> ''Missing required modules: Module 4 (Sustainability Practices), Module 5 (Risk Management)''
               \<in> set failures
         \<and> ''1 field(s) flagged for audit - must be reviewed before certification'' \<in> set failures)"
proof -
  have reaches: "reaches_application gate_store None (Some example_ctx) ''app-1'' example_app"
    by code_simp
  have not_terminal: "\<not> terminal_status (app_status example_app)"
    by code_simp
  have counts: "doc_status_count gate_store ''app-1'' ''pending'' = 1"
      "missing_modules gate_store ''app-1'' = [4, 5]" "flagged_count gate_store ''app-1'' = 1"
    by code_simp+
  have unprocessed: "documents_unprocessed gate_store ''app-1''"
    unfolding documents_unprocessed_iff counts by simp
  have missing: "modules_missing gate_store ''app-1''"
    unfolding modules_missing_iff counts by simp
  have flagged: "fields_flagged gate_store ''app-1''"
    unfolding fields_flagged_iff counts by simp
  have msgs: "pending_message 1 = ''1 document(s) still pending processing''"
      "missing_modules_message [4, 5] =
         ''Missing required modules: Module 4 (Sustainability Practices), Module 5 (Risk Management)''"
      "flagged_message 1 = ''1 field(s) flagged for audit - must be reviewed before certification''"
    by code_simp+
  have ids: "app_id example_app = ''app-1''" "app_status example_app = ''in_progress''"
    by (simp_all add: example_app_def)
  from certify_application_reports_every_failure
         [of True gate_store None "Some example_ctx" "''app-1''" example_app "''2025-02-02T10:00:00''",
          OF TrueI reaches not_terminal disjI1 [OF unprocessed]]
  obtain failures where f:
      "certify_application gate_store ''2025-02-02T10:00:00'' True None (Some example_ctx) =
         ([(''error'', PStr ''validation_failed''),
           (''message'', PStr msg_validation_failed),
           (''validation_failures'', PList (map PStr failures)),
           (''application_id'', PStr ''app-1''),
           (''current_status'', PStr ''in_progress'')], gate_store)"
      "pending_message 1 \<in> set failures"
      "missing_modules_message [4, 5] \<in> set failures"
      "flagged_message 1 \<in> set failures"
    unfolding counts ids using missing flagged by auto
  from f(2-4) have m: "''1 document(s) still pending processing'' \<in> set failures"
      "''Missing required modules: Module 4 (Sustainability Practices), Module 5 (Risk Management)''
         \<in> set failures"
      "''1 field(s) flagged for audit - must be reviewed before certification'' \<in> set failures"
    unfolding msgs by simp_all
  from f(1) m have "\<exists>failures.
         certify_application gate_store ''2025-02-02T10:00:00'' True None (Some example_ctx) =
           ([(''error'', PStr ''validation_failed''),
             (''message'', PStr msg_validation_failed),
             (''validation_failures'', PList (map PStr failures)),
             (''application_id'', PStr ''app-1''),
             (''current_status'', PStr ''in_progress'')], gate_store)
         \<and> ''1 document(s) still pending processing'' \<in> set failures
         \<and> ''Missing required modules: Module 4 (Sustainability Practices), Module 5 (Risk Management)''
               \<in> set failures
         \<and> ''1 field(s) flagged for audit - must be reviewed before certification'' \<in> set failures"
    by blast
  with reaches not_terminal unprocessed missing flagged show ?thesis by blast
qed

lemma checks_pass_iff: "checks_pass db tid = (validation_failures db tid = [])"
  unfolding checks_pass_def validation_failures_empty_iff documents_unprocessed_iff
    modules_missing_iff fields_flagged_iff no_documents_iff
  by auto

lemma certify_application_passes:
  assumes "certification_confirmed"
    and "resolve_application_id application_id session_context = Some tid" and "tid \<noteq> []"
    and "fetch_application db tid = Some app_row"
    and "\<not> (truthy_str (context_user_id session_context)
            \<and> app_user_id app_row \<noteq> the (context_user_id session_context))"
    and "app_status app_row \<noteq> ''approved''" and "app_status app_row \<noteq> ''rejected''"
    and "validation_failures db tid = []"
  shows "certify_application db now certification_confirmed application_id session_context =
           ([(''success'', PBool True),
             (''application_id'', PStr tid),
             (''status'', PStr ''approved''),
             (''certification_type'', PStr (app_certification_type app_row)),
             (''certified_at'', PStr now),
             (''pdf_url'', PStr (certificate_url tid)),
             (''message'', PStr (msg_certified_prefix @ certificate_url tid)),
             (''note'', PStr msg_certified_note)],
            db\<lparr>applications :=
                 map (\<lambda>a. if app_id a = tid
                          then a\<lparr>app_status := ''approved'', app_updated_at := now,
                                 app_notes := Some ((case app_notes a of None \<Rightarrow> [] | Some n \<Rightarrow> n)
                                                    @ [CHR 0x0A, CHR 0x0A] @ ''Certified at: '' @ now)\<rparr>
                          else a)
                   (applications db),
               audit_trail := audit_trail db @
                 (if truthy_str (context_user_id session_context)
                  then [\<lparr>au_application_id = tid,
                          au_user_id = the (context_user_id session_context),
                          au_action = ''application_certified'',
                          au_field_id = None,
                          au_new_value = ''Application certified for '' @ app_certification_type app_row,
                          au_created_at = now\<rparr>]
                  else [])\<rparr>)"
  using assms by (auto simp: certify_application_def truthy_str_Some Let_def)

lemma certify_application_writes_only_on_pass:
  assumes changed: "snd (certify_application db now certification_confirmed application_id session_context) \<noteq> db"
  shows "certification_confirmed
         \<and> (\<exists>tid app_row. reaches_application db application_id session_context tid app_row
               \<and> \<not> terminal_status (app_status app_row) \<and> checks_pass db tid)"
proof -
  let ?out = "certify_application db now certification_confirmed application_id session_context"
  have c: certification_confirmed
  proof (rule ccontr)
    assume "\<not> certification_confirmed"
    then have "snd ?out = db" by (simp add: certify_application_def)
    with changed show False by simp
  qed
  define target where "target = resolve_application_id application_id session_context"
  have t: "truthy_str target"
  proof (rule ccontr)
    assume "\<not> truthy_str target"
    then have "snd ?out = db" using c by (simp add: certify_application_def Let_def target_def)
    with changed show False by simp
  qed
  then obtain tid where tid: "target = Some tid" "tid \<noteq> []"
    by (cases target) (auto simp: truthy_str_def)
  have "fetch_application db tid \<noteq> None"
  proof
    assume "fetch_application db tid = None"
    then have "snd ?out = db"
      using c tid by (simp add: certify_application_def Let_def target_def [symmetric] truthy_str_Some)
    with changed show False by simp
  qed
  then obtain app_row where app: "fetch_application db tid = Some app_row" by blast
  have auth: "\<not> (truthy_str (context_user_id session_context)
          \<and> app_user_id app_row \<noteq> the (context_user_id session_context))"
  proof
    assume "truthy_str (context_user_id session_context)
          \<and> app_user_id app_row \<noteq> the (context_user_id session_context)"
    then have "snd ?out = db"
      using c tid app
      by (simp add: certify_application_def Let_def target_def [symmetric] truthy_str_Some)
    with changed show False by simp
  qed
  have status: "app_status app_row \<noteq> ''approved'' \<and> app_status app_row \<noteq> ''rejected''"
  proof (rule ccontr)
    assume "\<not> (app_status app_row \<noteq> ''approved'' \<and> app_status app_row \<noteq> ''rejected'')"
    then have "app_status app_row \<in> set [''approved'', ''rejected'']" by auto
    then have "snd ?out = db"
      using c tid app auth
      by (simp add: certify_application_def Let_def target_def [symmetric] truthy_str_Some
               del: set_simps)
    with changed show False by simp
  qed
  have pass: "validation_failures db tid = []"
  proof (rule ccontr)
    assume ne: "validation_failures db tid \<noteq> []"
    have "snd ?out = db"
      using certify_application_gate [OF c tid [unfolded target_def] app auth conjunct1 [OF status]
              conjunct2 [OF status] ne, of now]
      by simp
    with changed show False by simp
  qed
  from tid app auth have "reaches_application db application_id session_context tid app_row"
    by (simp add: reaches_application_def target_def)
  moreover from status have "\<not> terminal_status (app_status app_row)"
    by (simp add: terminal_status_def)
  moreover from pass have "checks_pass db tid" by (simp add: checks_pass_iff)
  ultimately show ?thesis using c by blast
qed

text \<open>
  Claim C3, as the code has it. When a confirmed call reaches a non-terminal application
  and all four checks pass, the handler sets the status to \<open>approved\<close>, appends the note
  with the certification timestamp, returns the stub certificate location, and appends one
  audit-trail entry when the session context names a user (none otherwise); documents and
  module data are untouched. The store changes in no other case.
\<close>

theorem certify_application_certifies:
  "(certification_confirmed \<and> reaches_application db application_id session_context tid app_row
      \<and> \<not> terminal_status (app_status app_row) \<and> checks_pass db tid
    \<longrightarrow> (let outcome = certify_application db now certification_confirmed application_id session_context;
              result = fst outcome; db' = snd outcome
          in map_of result ''success'' = Some (PBool True)
             \<and> map_of result ''status'' = Some (PStr ''approved'')
             \<and> map_of result ''pdf_url'' = Some (PStr (certificate_url tid))
             \<and> fetch_application db' tid =
                 Some (app_row\<lparr>app_status := ''approved'', app_updated_at := now,
                         app_notes := Some ((case app_notes app_row of None \<Rightarrow> [] | Some n \<Rightarrow> n)
                                            @ [CHR 0x0A, CHR 0x0A] @ ''Certified at: '' @ now)\<rparr>)
             \<and> filter (\<lambda>a. app_id a \<noteq> tid) (applications db')
                 = filter (\<lambda>a. app_id a \<noteq> tid) (applications db)
             \<and> audit_trail db' = audit_trail db @
                 (if truthy_str (context_user_id session_context)
                  then [\<lparr>au_application_id = tid,
                          au_user_id = the (context_user_id session_context),
                          au_action = ''application_certified'',
                          au_field_id = None,
                          au_new_value = ''Application certified for '' @ app_certification_type app_row,
                          au_created_at = now\<rparr>]
                  else [])
             \<and> documents db' = documents db \<and> module_data db' = module_data db))
   \<and> (snd (certify_application db now certification_confirmed application_id session_context) \<noteq> db
        \<longrightarrow> certification_confirmed
            \<and> (\<exists>tid app_row. reaches_application db application_id session_context tid app_row
                  \<and> \<not> terminal_status (app_status app_row) \<and> checks_pass db tid))"
proof (rule conjI; rule impI)
  assume h: "certification_confirmed \<and> reaches_application db application_id session_context tid app_row
      \<and> \<not> terminal_status (app_status app_row) \<and> checks_pass db tid"
  then have r: "certification_confirmed"
      "resolve_application_id application_id session_context = Some tid"
      "tid \<noteq> []" "fetch_application db tid = Some app_row"
      "\<not> (truthy_str (context_user_id session_context)
          \<and> app_user_id app_row \<noteq> the (context_user_id session_context))"
      "app_status app_row \<noteq> ''approved''" "app_status app_row \<noteq> ''rejected''"
      "validation_failures db tid = []"
    unfolding reaches_application_def terminal_status_def checks_pass_iff by simp_all
  note eq = certify_application_passes [OF r, of now]
  have fetch: "fetch_application
         (snd (certify_application db now certification_confirmed application_id session_context)) tid
       = Some (app_row\<lparr>app_status := ''approved'', app_updated_at := now,
                 app_notes := Some ((case app_notes app_row of None \<Rightarrow> [] | Some n \<Rightarrow> n)
                                    @ [CHR 0x0A, CHR 0x0A] @ ''Certified at: '' @ now)\<rparr>)"
    unfolding eq using r(4)
    by (simp add: fetch_application_def find_map_update [where key = app_id])
  have others: "filter (\<lambda>a. app_id a \<noteq> tid)
         (applications (snd (certify_application db now certification_confirmed application_id session_context)))
       = filter (\<lambda>a. app_id a \<noteq> tid) (applications db)"
    unfolding eq by (simp add: filter_map_others [where key = app_id])
  show "let outcome = certify_application db now certification_confirmed application_id session_context;
              result = fst outcome; db' = snd outcome
          in map_of result ''success'' = Some (PBool True)
             \<and> map_of result ''status'' = Some (PStr ''approved'')
             \<and> map_of result ''pdf_url'' = Some (PStr (certificate_url tid))
             \<and> fetch_application db' tid =
                 Some (app_row\<lparr>app_status := ''approved'', app_updated_at := now,
                         app_notes := Some ((case app_notes app_row of None \<Rightarrow> [] | Some n \<Rightarrow> n)
                                            @ [CHR 0x0A, CHR 0x0A] @ ''Certified at: '' @ now)\<rparr>)
             \<and> filter (\<lambda>a. app_id a \<noteq> tid) (applications db')
                 = filter (\<lambda>a. app_id a \<noteq> tid) (applications db)
             \<and> audit_trail db' = audit_trail db @
                 (if truthy_str (context_user_id session_context)
                  then [\<lparr>au_application_id = tid,
                          au_user_id = the (context_user_id session_context),
                          au_action = ''application_certified'',
                          au_field_id = None,
                          au_new_value = ''Application certified for '' @ app_certification_type app_row,
                          au_created_at = now\<rparr>]
                  else [])
             \<and> documents db' = documents db \<and> module_data db' = module_data db"
    unfolding Let_def
  proof (intro conjI)
    show "fetch_application
         (snd (certify_application db now certification_confirmed application_id session_context)) tid
       = Some (app_row\<lparr>app_status := ''approved'', app_updated_at := now,
                 app_notes := Some ((case app_notes app_row of None \<Rightarrow> [] | Some n \<Rightarrow> n)
                                    @ [CHR 0x0A, CHR 0x0A] @ ''Certified at: '' @ now)\<rparr>)"
      by (rule fetch)
    show "filter (\<lambda>a. app_id a \<noteq> tid)
         (applications (snd (certify_application db now certification_confirmed application_id session_context)))
       = filter (\<lambda>a. app_id a \<noteq> tid) (applications db)"
      by (rule others)
  qed (simp_all add: eq)
next
  assume "snd (certify_application db now certification_confirmed application_id session_context) \<noteq> db"
  from certify_application_writes_only_on_pass [OF this]
  show "certification_confirmed
            \<and> (\<exists>tid app_row. reaches_application db application_id session_context tid app_row
                  \<and> \<not> terminal_status (app_status app_row) \<and> checks_pass db tid)" .
qed


theorem certify_application_certifies_witness:
  "reaches_application ready_store None (Some example_ctx) ''app-1'' example_app
   \<and> \<not> terminal_status (app_status example_app)
   \<and> checks_pass ready_store ''app-1''
   \<and> map_of (fst (certify_application ready_store ''2025-02-02T10:00:00'' True None (Some example_ctx)))
        ''pdf_url'' = Some (PStr ''/api/applications/app-1/certificate.pdf'')
   \<and> map_option app_status
        (fetch_application
           (snd (certify_application ready_store ''2025-02-02T10:00:00'' True None (Some example_ctx)))
           ''app-1'') = Some ''approved''
   \<and> length (audit_trail
        (snd (certify_application ready_store ''2025-02-02T10:00:00'' True None (Some example_ctx)))) = 1
   \<and> snd (certify_application ready_store ''2025-02-02T10:00:00'' True None (Some example_ctx))
        \<noteq> ready_store"
proof -
  let ?out = "certify_application ready_store ''2025-02-02T10:00:00'' True None (Some example_ctx)"
  have reaches: "reaches_application ready_store None (Some example_ctx) ''app-1'' example_app"
    by code_simp
  have not_terminal: "\<not> terminal_status (app_status example_app)"
    by code_simp
  have pass: "checks_pass ready_store ''app-1''"
    by code_simp
  have user: "truthy_str (context_user_id (Some example_ctx))"
    by code_simp
  have url: "certificate_url ''app-1'' = ''/api/applications/app-1/certificate.pdf''"
    by code_simp
  have trail: "audit_trail ready_store = []"
    by (simp add: ready_store_def)
  note inst = certify_application_certifies
               [of True ready_store None "Some example_ctx" "''app-1''" example_app "''2025-02-02T10:00:00''"]
  from inst [THEN conjunct1, rule_format, OF conjI [OF TrueI conjI [OF reaches conjI [OF not_terminal pass]]]]
  have effects: "map_of (fst ?out) ''pdf_url'' = Some (PStr (certificate_url ''app-1''))"
      "fetch_application (snd ?out) ''app-1'' =
         Some (example_app\<lparr>app_status := ''approved'', app_updated_at := ''2025-02-02T10:00:00'',
                 app_notes := Some ((case app_notes example_app of None \<Rightarrow> [] | Some n \<Rightarrow> n)
                                    @ [CHR 0x0A, CHR 0x0A] @ ''Certified at: '' @ ''2025-02-02T10:00:00'')\<rparr>)"
      "length (audit_trail (snd ?out)) = 1"
    unfolding Let_def using user trail by simp_all
  from effects(3) trail have changed: "snd ?out \<noteq> ready_store" by auto
  from effects(2) have status: "map_option app_status (fetch_application (snd ?out) ''app-1'') = Some ''approved''"
    by simp
  from reaches not_terminal pass effects(1) status effects(3) changed show ?thesis
    unfolding url by (intro conjI)
qed

text \<open>
  Claim C3 as stated, "writes exactly one audit-trail entry": a call without a session
  context certifies the application and leaves the audit trail as it was.
\<close>

theorem certify_application_audit_counterexample:
  "checks_pass ready_store ''app-1''
   \<and> map_of (fst (certify_application ready_store ''2025-02-02T10:00:00'' True (Some ''app-1'') None))
        ''success'' = Some (PBool True)
   \<and> map_option app_status
        (fetch_application
           (snd (certify_application ready_store ''2025-02-02T10:00:00'' True (Some ''app-1'') None))
           ''app-1'') = Some ''approved''
   \<and> audit_trail (snd (certify_application ready_store ''2025-02-02T10:00:00'' True (Some ''app-1'') None))
        = audit_trail ready_store"
  by code_simp


lemma certify_application_approves:
  assumes "certification_confirmed"
    and "reaches_application db application_id session_context tid app_row"
    and "\<not> terminal_status (app_status app_row)"
    and "checks_pass db tid"
  shows "map_of (fst (certify_application db now certification_confirmed application_id session_context))
            ''success'' = Some (PBool True)
          \<and> map_option app_status
               (fetch_application
                  (snd (certify_application db now certification_confirmed application_id session_context))
                  tid) = Some ''approved''"
proof -
  from assms have r: "certification_confirmed"
      "resolve_application_id application_id session_context = Some tid"
      "tid \<noteq> []" "fetch_application db tid = Some app_row"
      "\<not> (truthy_str (context_user_id session_context)
          \<and> app_user_id app_row \<noteq> the (context_user_id session_context))"
      "app_status app_row \<noteq> ''approved''" "app_status app_row \<noteq> ''rejected''"
      "validation_failures db tid = []"
    unfolding reaches_application_def terminal_status_def checks_pass_iff by simp_all
  note eq = certify_application_passes [OF r, of now]
  show ?thesis
    unfolding eq using r(4)
    by (simp add: fetch_application_def find_map_update [where key = app_id])
qed

lemma count_zero_iff: "(length (filter P xs) = 0) = (\<forall>x \<in> set xs. \<not> P x)"
  by (simp add: filter_empty_conv)

text \<open>
  Claim C10. The document gate of \<open>certify_application\<close> counts the extraction statuses
  \<open>pending\<close>, \<open>processing\<close> and \<open>error\<close> only. When every document of the application has
  status \<open>failed\<close> (and there is at least one), neither the document-status check nor the
  no-documents check fails: the failure list holds at most the module and audit-flag
  messages, and with those two checks passing the application is certified.
  \<open>extract_fields\<close>, for its part, reports a document whose OCR status is \<open>failed\<close> and
  whose extraction metadata is NULL as \<open>ocr_failed\<close>.
\<close>

theorem failed_documents_do_not_block_certification:
  assumes confirmed: "certification_confirmed"
    and reaches: "reaches_application db application_id session_context tid app_row"
    and not_terminal: "\<not> terminal_status (app_status app_row)"
    and all_failed: "\<forall>d \<in> set (documents db). doc_application_id d = tid
                       \<longrightarrow> doc_extraction_status d = Some ''failed''"
    and some_doc: "\<exists>d \<in> set (documents db). doc_application_id d = tid"
  shows "\<not> documents_unprocessed db tid \<and> \<not> no_documents db tid
     \<and> validation_failures db tid =
         (if modules_missing db tid then [missing_modules_message (missing_modules db tid)] else [])
         @ (if fields_flagged db tid then [flagged_message (flagged_count db tid)] else [])
     \<and> (\<not> modules_missing db tid \<and> \<not> fields_flagged db tid \<longrightarrow>
          map_of (fst (certify_application db now certification_confirmed application_id session_context))
            ''success'' = Some (PBool True)
          \<and> map_option app_status
               (fetch_application
                  (snd (certify_application db now certification_confirmed application_id session_context))
                  tid) = Some ''approved'')
     \<and> (\<forall>document_id field_hints document.
          find (\<lambda>d. doc_id d = document_id \<and> fetch_application db (doc_application_id d) \<noteq> None)
            (documents db) = Some document
          \<and> doc_application_id document = tid
          \<and> doc_ocr_status document = Some ''failed''
          \<and> doc_extraction_metadata document = None
          \<longrightarrow> map_of (fst (extract_fields db document_id field_hints session_context)) ''error''
                = Some (PStr ''ocr_failed''))"
proof -
  have zero: "doc_status_count db tid ''pending'' = 0" "doc_status_count db tid ''processing'' = 0"
      "doc_status_count db tid ''error'' = 0"
    unfolding doc_status_count_def count_zero_iff using all_failed by auto
  from some_doc have docs: "0 < total_docs db tid"
    unfolding total_docs_def count_pos_iff .
  have a: "\<not> documents_unprocessed db tid"
    unfolding documents_unprocessed_iff zero by simp
  have b: "\<not> no_documents db tid"
    unfolding no_documents_iff using docs by simp
  have c: "validation_failures db tid =
         (if modules_missing db tid then [missing_modules_message (missing_modules db tid)] else [])
         @ (if fields_flagged db tid then [flagged_message (flagged_count db tid)] else [])"
    unfolding modules_missing_iff fields_flagged_iff
    using zero docs by (simp add: validation_failures_def Let_def)
  have d: "map_of (fst (certify_application db now certification_confirmed application_id session_context))
            ''success'' = Some (PBool True)
          \<and> map_option app_status
               (fetch_application
                  (snd (certify_application db now certification_confirmed application_id session_context))
                  tid) = Some ''approved''"
    if "\<not> modules_missing db tid \<and> \<not> fields_flagged db tid"
  proof -
    from that a b have "checks_pass db tid" by (simp add: checks_pass_def)
    from certify_application_approves [OF confirmed reaches not_terminal this]
    show ?thesis .
  qed
  have e: "map_of (fst (extract_fields db document_id field_hints session_context)) ''error''
                = Some (PStr ''ocr_failed'')"
    if h: "find (\<lambda>d. doc_id d = document_id \<and> fetch_application db (doc_application_id d) \<noteq> None)
            (documents db) = Some document
          \<and> doc_application_id document = tid
          \<and> doc_ocr_status document = Some ''failed''
          \<and> doc_extraction_metadata document = None"
    for document_id field_hints document
  proof -
    from reaches have "fetch_application db tid = Some app_row"
        "\<not> (truthy_str (context_user_id session_context)
          \<and> app_user_id app_row \<noteq> the (context_user_id session_context))"
      unfolding reaches_application_def by simp_all
    with h show ?thesis
      by (auto simp: extract_fields_def Let_def error_payload_def)
  qed
  from a b c d e show ?thesis by blast
qed

theorem failed_documents_do_not_block_certification_witness:
  "reaches_application failed_docs_store None (Some example_ctx) ''app-1'' example_app
   \<and> \<not> terminal_status (app_status example_app)
   \<and> map doc_extraction_status
         (filter (\<lambda>d. doc_application_id d = ''app-1'') (documents failed_docs_store))
       = [Some ''failed'']
   \<and> validation_failures failed_docs_store ''app-1'' = []
   \<and> map_of (fst (certify_application failed_docs_store ''2025-02-02T10:00:00'' True None (Some example_ctx)))
        ''success'' = Some (PBool True)
   \<and> map_option app_status
        (fetch_application
           (snd (certify_application failed_docs_store ''2025-02-02T10:00:00'' True None (Some example_ctx)))
           ''app-1'') = Some ''approved''
   \<and> map_of (fst (extract_fields failed_docs_store ''doc-1'' None (Some example_ctx))) ''error''
        = Some (PStr ''ocr_failed'')"
proof -
  have reaches: "reaches_application failed_docs_store None (Some example_ctx) ''app-1'' example_app"
    by code_simp
  have not_terminal: "\<not> terminal_status (app_status example_app)"
    by code_simp
  have all_failed: "\<forall>d \<in> set (documents failed_docs_store). doc_application_id d = ''app-1''
         \<longrightarrow> doc_extraction_status d = Some ''failed''"
    by code_simp
  have some_doc: "\<exists>d \<in> set (documents failed_docs_store). doc_application_id d = ''app-1''"
    by code_simp
  have ok: "\<not> modules_missing failed_docs_store ''app-1''" "\<not> fields_flagged failed_docs_store ''app-1''"
    by code_simp+
  have doc: "find (\<lambda>d. doc_id d = ''doc-1''
                      \<and> fetch_application failed_docs_store (doc_application_id d) \<noteq> None)
               (documents failed_docs_store) = Some (example_doc ''failed'')"
      "doc_application_id (example_doc ''failed'') = ''app-1''"
      "doc_ocr_status (example_doc ''failed'') = Some ''failed''"
      "doc_extraction_metadata (example_doc ''failed'') = None"
    by code_simp+
  note inst = failed_documents_do_not_block_certification
               [of True failed_docs_store None "Some example_ctx" "''app-1''" example_app
                   "''2025-02-02T10:00:00''", OF TrueI reaches not_terminal all_failed some_doc]
  from inst ok have v: "validation_failures failed_docs_store ''app-1'' = []" by simp
  from inst ok have c: "map_of (fst (certify_application failed_docs_store ''2025-02-02T10:00:00'' True None
                                       (Some example_ctx))) ''success'' = Some (PBool True)"
      "map_option app_status
        (fetch_application
           (snd (certify_application failed_docs_store ''2025-02-02T10:00:00'' True None (Some example_ctx)))
           ''app-1'') = Some ''approved''"
    by blast+
  from inst doc have e: "map_of (fst (extract_fields failed_docs_store ''doc-1'' None (Some example_ctx))) ''error''
        = Some (PStr ''ocr_failed'')"
    by blast
  have statuses: "map doc_extraction_status
         (filter (\<lambda>d. doc_application_id d = ''app-1'') (documents failed_docs_store))
       = [Some ''failed'']"
    by code_simp
  from reaches not_terminal statuses v c e show ?thesis by (intro conjI)
qed

section \<open>Properties of update_module and request_audit\<close>

lemma find_filter_conv:
  "find P xs = (case filter P xs of [] \<Rightarrow> None | x # _ \<Rightarrow> Some x)"
  by (induction xs) auto

lemma filter_map_preserving:
  "(\<And>x. P (g x) = P x) \<Longrightarrow> filter P (map g xs) = map g (filter P xs)"
  by (induction xs) auto

lemma touch_application_frame:
  "module_data (touch_application db now tid) = module_data db"
  "documents (touch_application db now tid) = documents db"
  "audit_trail (touch_application db now tid) = audit_trail db"
  by (simp_all add: touch_application_def)

lemma touch_application_fetch:
  "fetch_application db tid = Some app_row \<Longrightarrow>
   fetch_application (touch_application db now tid) tid = Some (app_row\<lparr>app_updated_at := now\<rparr>)"
  by (simp add: fetch_application_def touch_application_def find_map_update [where key = app_id])

lemma write_field_applications:
  "applications (write_field db now tid module_name field_id v) = applications db"
  by (simp add: write_field_def split: option.splits)

lemma existing_field_rows:
  "existing_field db tid module_name field_id =
     (case field_rows db tid module_name field_id of [] \<Rightarrow> None | row # _ \<Rightarrow> Some row)"
  unfolding existing_field_def field_rows_def by (rule find_filter_conv)

lemma field_rows_touch:
  "field_rows (touch_application db now tid') tid module_name field_id
     = field_rows db tid module_name field_id"
  by (simp add: field_rows_def touch_application_frame)

lemma write_field_insert:
  assumes "field_rows db tid module_name field_id = []"
  shows "field_rows (write_field db now tid module_name field_id v) tid module_name field_id =
           [\<lparr>md_id = fresh_id (module_data db), md_application_id = tid, md_module_number = None,
             md_module_name = Some module_name, md_field_id = None, md_field_name = Some field_id,
             md_value = None, md_field_value = Some v, md_source = None,
             md_data_source = Some ''proxy_entered'', md_confidence_score = Some 1,
             md_created_at = Some now, md_updated_at = Some now\<rparr>]"
proof -
  from assms have none: "existing_field db tid module_name field_id = None"
    by (simp add: existing_field_rows)
  have "module_data (write_field db now tid module_name field_id v) = module_data db @
           [\<lparr>md_id = fresh_id (module_data db), md_application_id = tid, md_module_number = None,
             md_module_name = Some module_name, md_field_id = None, md_field_name = Some field_id,
             md_value = None, md_field_value = Some v, md_source = None,
             md_data_source = Some ''proxy_entered'', md_confidence_score = Some 1,
             md_created_at = Some now, md_updated_at = Some now\<rparr>]"
    by (simp add: write_field_def none)
  then show ?thesis
    using assms by (simp add: field_rows_def)
qed

lemma write_field_update:
  assumes "field_rows db tid module_name field_id = [existing_row]"
  shows "field_rows (write_field db now tid module_name field_id v) tid module_name field_id
         = [existing_row\<lparr>md_field_value := Some v, md_data_source := Some ''proxy_edited'',
                          md_confidence_score := Some 1, md_updated_at := Some now\<rparr>]"
proof -
  from assms have e: "existing_field db tid module_name field_id = Some existing_row"
    by (simp add: existing_field_rows)
  define g :: "module_field \<Rightarrow> module_field" where "g = (\<lambda>r. if md_id r = md_id existing_row
                 then r\<lparr>md_field_value := Some v, md_data_source := Some ''proxy_edited'',
                        md_confidence_score := Some 1, md_updated_at := Some now\<rparr>
                 else r)"
  define K :: "module_field \<Rightarrow> bool" where "K = (\<lambda>r. md_application_id r = tid \<and> md_module_name r = Some module_name
                \<and> md_field_name r = Some field_id)"
  have rows: "module_data (write_field db now tid module_name field_id v) = map g (module_data db)"
    by (simp add: write_field_def e g_def)
  have "K (g x) = K x" for x by (simp add: K_def g_def)
  then have "filter K (map g (module_data db)) = map g (filter K (module_data db))"
    by (rule filter_map_preserving)
  also have "filter K (module_data db) = [existing_row]"
    using assms by (simp add: field_rows_def K_def)
  finally have "filter K (map g (module_data db)) = [g existing_row]" by simp
  then show ?thesis
    unfolding field_rows_def rows K_def [symmetric] by (simp add: g_def)
qed

lemma update_module_unlocked:
  assumes "map_of MODULE_NAMES module_number = Some module_name"
    and "reaches_application db application_id session_context tid app_row"
    and "\<not> terminal_status (app_status app_row)"
  shows "update_module db now module_number field_id v application_id session_context =
           ([(''success'', PBool True),
             (''field_id'', PStr field_id),
             (''module_name'', PStr module_name),
             (''module_number'', PInt module_number),
             (''old_value'', py_opt_str (case existing_field db tid module_name field_id of
                                           None \<Rightarrow> None | Some row \<Rightarrow> md_field_value row)),
             (''new_value'', PStr v),
             (''data_source'', PStr (case existing_field db tid module_name field_id of
                                       None \<Rightarrow> ''proxy_entered'' | Some row \<Rightarrow> ''proxy_edited'')),
             (''message'', PStr (''Successfully ''
                 @ (if truthy_str (case existing_field db tid module_name field_id of
                                     None \<Rightarrow> None | Some row \<Rightarrow> md_field_value row)
                    then ''updated'' else ''created'')
                 @ '' field '' @ quoted field_id @ '' in '' @ module_name
                 @ '' module (Module '' @ str_int module_number @ '').''))],
            touch_application (write_field db now tid module_name field_id v) now tid)"
  using assms
  by (auto simp: update_module_def reaches_application_def terminal_status_def truthy_str_Some Let_def)

lemma update_module_result:
  assumes "map_of MODULE_NAMES module_number = Some module_name"
    and "reaches_application db application_id session_context tid app_row"
    and "\<not> terminal_status (app_status app_row)"
  shows "snd (update_module db now module_number field_id v application_id session_context)
           = touch_application (write_field db now tid module_name field_id v) now tid"
    and "map_of (fst (update_module db now module_number field_id v application_id session_context))
           ''success'' = Some (PBool True)"
    and "map_of (fst (update_module db now module_number field_id v application_id session_context))
           ''old_value'' = Some (py_opt_str (case existing_field db tid module_name field_id of
                                               None \<Rightarrow> None | Some row \<Rightarrow> md_field_value row))"
    and "map_of (fst (update_module db now module_number field_id v application_id session_context))
           ''data_source'' = Some (PStr (case existing_field db tid module_name field_id of
                                       None \<Rightarrow> ''proxy_entered'' | Some row \<Rightarrow> ''proxy_edited''))"
  unfolding update_module_unlocked [OF assms] by simp_all

lemma update_module_keeps_reach:
  assumes "reaches_application db application_id session_context tid app_row"
  shows "reaches_application
           (touch_application (write_field db now tid module_name field_id v) now tid)
           application_id session_context tid (app_row\<lparr>app_updated_at := now\<rparr>)"
proof -
  from assms have "fetch_application (write_field db now tid module_name field_id v) tid = Some app_row"
    by (simp add: reaches_application_def fetch_application_def write_field_applications)
  from touch_application_fetch [OF this] assms show ?thesis
    by (simp add: reaches_application_def)
qed


text \<open>
  Claim C7. On an unlocked application whose store holds at most one row per
  (application, module name, field name) key, two \<open>update_module\<close> calls on the same key
  leave exactly one row under that key, holding the second value with source
  \<open>proxy_edited\<close> and confidence 1; the second call reports \<open>proxy_edited\<close> and, as
  \<open>old_value\<close>, the value the first call wrote. A first write to an absent field inserts
  with source \<open>proxy_entered\<close> and reports \<open>old_value\<close> as \<open>None\<close>.
\<close>

theorem update_module_twice:
  assumes module: "map_of MODULE_NAMES module_number = Some module_name"
    and reaches: "reaches_application db application_id session_context tid app_row"
    and unlocked: "\<not> terminal_status (app_status app_row)"
    and unique: "length (field_rows db tid module_name field_id) \<le> 1"
  shows "let first = update_module db now1 module_number field_id v1 application_id session_context;
             second = update_module (snd first) now2 module_number field_id v2 application_id session_context
         in (\<exists>row. field_rows (snd second) tid module_name field_id = [row]
                \<and> md_field_value row = Some v2 \<and> md_data_source row = Some ''proxy_edited''
                \<and> md_confidence_score row = Some 1)
            \<and> map_of (fst second) ''success'' = Some (PBool True)
            \<and> map_of (fst second) ''data_source'' = Some (PStr ''proxy_edited'')
            \<and> map_of (fst second) ''old_value'' = Some (PStr v1)
            \<and> (field_rows db tid module_name field_id = [] \<longrightarrow>
                  map_of (fst first) ''data_source'' = Some (PStr ''proxy_entered'')
                  \<and> map_of (fst first) ''old_value'' = Some PNone
                  \<and> (\<exists>row. field_rows (snd first) tid module_name field_id = [row]
                        \<and> md_field_value row = Some v1 \<and> md_data_source row = Some ''proxy_entered''
                        \<and> md_confidence_score row = Some 1))"
proof -
  let ?first = "update_module db now1 module_number field_id v1 application_id session_context"
  define db1 where "db1 = touch_application (write_field db now1 tid module_name field_id v1) now1 tid"
  let ?second = "update_module db1 now2 module_number field_id v2 application_id session_context"
  note first = update_module_result [OF module reaches unlocked, of now1 field_id v1]
  have snd_first: "snd ?first = db1" unfolding first(1) db1_def by (rule refl)
  have rows1: "field_rows db1 tid module_name field_id
                 = field_rows (write_field db now1 tid module_name field_id v1) tid module_name field_id"
    unfolding db1_def by (rule field_rows_touch)
  have one: "\<exists>row. field_rows db1 tid module_name field_id = [row] \<and> md_field_value row = Some v1
                \<and> md_confidence_score row = Some 1
                \<and> (field_rows db tid module_name field_id = []
                     \<longrightarrow> md_data_source row = Some ''proxy_entered'')"
  proof (cases "field_rows db tid module_name field_id")
    case Nil
    show ?thesis
      unfolding rows1 write_field_insert [OF Nil] by simp
  next
    case (Cons e rest)
    with unique have e: "field_rows db tid module_name field_id = [e]" by simp
    show ?thesis
      unfolding rows1 write_field_update [OF e] by (simp add: e)
  qed
  then obtain row1 where row1: "field_rows db1 tid module_name field_id = [row1]"
      "md_field_value row1 = Some v1" "md_confidence_score row1 = Some 1"
      "field_rows db tid module_name field_id = [] \<longrightarrow> md_data_source row1 = Some ''proxy_entered''"
    by (elim exE conjE)
  have reaches1: "reaches_application db1 application_id session_context tid (app_row\<lparr>app_updated_at := now1\<rparr>)"
    unfolding db1_def by (rule update_module_keeps_reach [OF reaches])
  have unlocked1: "\<not> terminal_status (app_status (app_row\<lparr>app_updated_at := now1\<rparr>))"
    using unlocked by simp
  note second = update_module_result [OF module reaches1 unlocked1, of now2 field_id v2]
  have existing1: "existing_field db1 tid module_name field_id = Some row1"
    by (simp add: existing_field_rows row1(1))
  have rows2: "field_rows (snd ?second) tid module_name field_id
                 = [row1\<lparr>md_field_value := Some v2, md_data_source := Some ''proxy_edited'',
                          md_confidence_score := Some 1, md_updated_at := Some now2\<rparr>]"
    unfolding second(1) field_rows_touch by (rule write_field_update [OF row1(1)])
  have a: "\<exists>row. field_rows (snd ?second) tid module_name field_id = [row]
                \<and> md_field_value row = Some v2 \<and> md_data_source row = Some ''proxy_edited''
                \<and> md_confidence_score row = Some 1"
    unfolding rows2 by simp
  have b: "map_of (fst ?second) ''success'' = Some (PBool True)"
      "map_of (fst ?second) ''data_source'' = Some (PStr ''proxy_edited'')"
      "map_of (fst ?second) ''old_value'' = Some (PStr v1)"
    unfolding second(2,3,4) existing1 by (simp_all add: py_opt_str_def row1(2))
  have c: "map_of (fst ?first) ''data_source'' = Some (PStr ''proxy_entered'')
           \<and> map_of (fst ?first) ''old_value'' = Some PNone
           \<and> (\<exists>row. field_rows (snd ?first) tid module_name field_id = [row]
                 \<and> md_field_value row = Some v1 \<and> md_data_source row = Some ''proxy_entered''
                 \<and> md_confidence_score row = Some 1)"
    if none: "field_rows db tid module_name field_id = []"
  proof -
    from none have e0: "existing_field db tid module_name field_id = None"
      by (simp add: existing_field_rows)
    have p: "map_of (fst ?first) ''data_source'' = Some (PStr ''proxy_entered'')"
        "map_of (fst ?first) ''old_value'' = Some PNone"
      unfolding first(3,4) e0 by (simp_all add: py_opt_str_def)
    have q: "\<exists>row. field_rows (snd ?first) tid module_name field_id = [row]
                 \<and> md_field_value row = Some v1 \<and> md_data_source row = Some ''proxy_entered''
                 \<and> md_confidence_score row = Some 1"
      unfolding snd_first
      by (rule exI [of _ row1]) (simp add: row1 none)
    from p q show ?thesis by (intro conjI)
  qed
  have "(\<exists>row. field_rows (snd ?second) tid module_name field_id = [row]
                \<and> md_field_value row = Some v2 \<and> md_data_source row = Some ''proxy_edited''
                \<and> md_confidence_score row = Some 1)
            \<and> map_of (fst ?second) ''success'' = Some (PBool True)
            \<and> map_of (fst ?second) ''data_source'' = Some (PStr ''proxy_edited'')
            \<and> map_of (fst ?second) ''old_value'' = Some (PStr v1)
            \<and> (field_rows db tid module_name field_id = [] \<longrightarrow>
                  map_of (fst ?first) ''data_source'' = Some (PStr ''proxy_entered'')
                  \<and> map_of (fst ?first) ''old_value'' = Some PNone
                  \<and> (\<exists>row. field_rows (snd ?first) tid module_name field_id = [row]
                        \<and> md_field_value row = Some v1 \<and> md_data_source row = Some ''proxy_entered''
                        \<and> md_confidence_score row = Some 1))"
    by (rule conjI [OF a conjI [OF b(1) conjI [OF b(2) conjI [OF b(3) impI [OF c]]]]])
  then show ?thesis
    unfolding Let_def snd_first .
qed


theorem update_module_twice_witness:
  "map_of MODULE_NAMES 1 = Some ''financial''
   \<and> reaches_application empty_store None (Some example_ctx) ''app-1'' example_app
   \<and> \<not> terminal_status (app_status example_app)
   \<and> field_rows empty_store ''app-1'' ''financial'' ''total_revenue'' = []
   \<and> map_of (fst (update_module empty_store ''2025-02-02T10:00:00'' 1 ''total_revenue'' ''5'' None
                     (Some example_ctx))) ''old_value'' = Some PNone
   \<and> map_of (fst (update_module
                     (snd (update_module empty_store ''2025-02-02T10:00:00'' 1 ''total_revenue'' ''5'' None
                             (Some example_ctx)))
                     ''2025-02-02T11:00:00'' 1 ''total_revenue'' ''6'' None (Some example_ctx)))
        ''old_value'' = Some (PStr ''5'')
   \<and> map_of (fst (update_module
                     (snd (update_module empty_store ''2025-02-02T10:00:00'' 1 ''total_revenue'' ''5'' None
                             (Some example_ctx)))
                     ''2025-02-02T11:00:00'' 1 ''total_revenue'' ''6'' None (Some example_ctx)))
        ''data_source'' = Some (PStr ''proxy_edited'')"
proof -
  have module: "map_of MODULE_NAMES 1 = Some ''financial''"
    by (simp add: MODULE_NAMES_def)
  have reaches: "reaches_application empty_store None (Some example_ctx) ''app-1'' example_app"
    by code_simp
  have unlocked: "\<not> terminal_status (app_status example_app)"
    by code_simp
  have none: "field_rows empty_store ''app-1'' ''financial'' ''total_revenue'' = []"
    by (simp add: field_rows_def empty_store_def)
  have unique: "length (field_rows empty_store ''app-1'' ''financial'' ''total_revenue'') \<le> 1"
    unfolding none by simp
  note w = update_module_twice [OF module reaches unlocked unique,
             of "''2025-02-02T10:00:00''" "''5''" "''2025-02-02T11:00:00''" "''6''", unfolded Let_def]
  note source2 = w [THEN conjunct2, THEN conjunct2, THEN conjunct1]
  note old2 = w [THEN conjunct2, THEN conjunct2, THEN conjunct2, THEN conjunct1]
  note first = w [THEN conjunct2, THEN conjunct2, THEN conjunct2, THEN conjunct2, THEN mp, OF none]
  note old1 = first [THEN conjunct2, THEN conjunct1]
  from module reaches unlocked none old1 old2 source2 show ?thesis by (intro conjI)
qed

lemma flag_fields_None:
  "(flag_fields db tid field_ids = None)
     = (\<forall>field_id \<in> set field_ids.
          find (\<lambda>r. md_application_id r = tid \<and> md_field_id r = Some field_id) (module_data db) = None)"
  by (induction field_ids) (auto split: option.splits)

lemma request_audit_writes_no_flag:
  "module_data (snd (request_audit db now reason application_id document_id field_ids session_context))
     = module_data db
   \<and> documents (snd (request_audit db now reason application_id document_id field_ids session_context))
     = documents db"
  by (simp add: request_audit_def Let_def touch_application_frame split: option.splits)

lemma request_audit_existing_field:
  assumes reaches: "reaches_application db application_id session_context tid app_row"
    and no_document: "\<not> truthy_str document_id"
    and row: "find (\<lambda>r. md_application_id r = tid \<and> md_field_id r = Some field_id) (module_data db)
                = Some field_row"
  shows "request_audit db now reason application_id document_id (Some [field_id]) session_context
           = (database_error msg_indeterminate_datatype, db)"
  using assms
  by (auto simp: request_audit_def reaches_application_def truthy_str_Some truthy_list_def Let_def)

text \<open>
  Claim C8 on an application in progress whose field \<open>total_revenue\<close> holds the scalar
  \<open>"125000"\<close>: \<open>request_audit\<close> with reason \<open>low OCR confidence\<close> and that field id answers
  \<open>database_error\<close>, not success, because the field \<open>UPDATE\<close> cannot be prepared. The store
  is returned as it was: the value is still the bare \<open>"125000"\<close>, without \<open>_value\<close>,
  \<open>_audit_flagged\<close>, \<open>_audit_reason\<close> or \<open>_audit_requested_at\<close>, no audit-trail row is
  written and \<open>updated_at\<close> is not bumped.
\<close>

theorem request_audit_stores_no_flag:
  "map md_value
       (filter (\<lambda>r. md_field_id r = Some ''total_revenue'') (module_data ready_store))
       = [Some (JStr ''125000'')]
   \<and> fst (request_audit ready_store ''2025-02-02T10:00:00'' ''low OCR confidence''
            None None (Some [''total_revenue'']) (Some example_ctx))
       = database_error msg_indeterminate_datatype
   \<and> map_of (fst (request_audit ready_store ''2025-02-02T10:00:00'' ''low OCR confidence''
                     None None (Some [''total_revenue'']) (Some example_ctx))) ''error''
       = Some (PStr ''database_error'')
   \<and> map_of (fst (request_audit ready_store ''2025-02-02T10:00:00'' ''low OCR confidence''
                     None None (Some [''total_revenue'']) (Some example_ctx))) ''success''
       = None
   \<and> snd (request_audit ready_store ''2025-02-02T10:00:00'' ''low OCR confidence''
            None None (Some [''total_revenue'']) (Some example_ctx))
       = ready_store
   \<and> map md_value
       (filter (\<lambda>r. md_field_id r = Some ''total_revenue'')
          (module_data (snd (request_audit ready_store ''2025-02-02T10:00:00'' ''low OCR confidence''
                               None None (Some [''total_revenue'']) (Some example_ctx)))))
       = [Some (JStr ''125000'')]"
  by code_simp

lemma update_module_locked:
  assumes "map_of MODULE_NAMES module_number = Some module_name"
    and "reaches_application db application_id session_context tid app_row"
    and "terminal_status (app_status app_row)"
  shows "update_module db now module_number field_id v application_id session_context =
           (error_payload ''application_locked''
              (''Cannot update fields in a '' @ app_status app_row
               @ '' application. Application is locked.''), db)"
  using assms
  by (auto simp: update_module_def reaches_application_def terminal_status_def truthy_str_Some Let_def)

text \<open>
  Claim C2 on an approved application: \<open>update_module\<close> answers \<open>application_locked\<close> and
  returns the store as it was; \<open>request_audit\<close>, which has no status check, answers
  success, appends an audit-trail row and bumps the application's \<open>updated_at\<close> when the
  field it names has no row.
\<close>

theorem request_audit_ignores_lock:
  "map app_status (applications approved_store) = [''approved'']
   \<and> map_of (fst (update_module approved_store ''2025-03-03T09:00:00'' 1 ''total_revenue'' ''5'' None
                     (Some example_ctx))) ''error'' = Some (PStr ''application_locked'')
   \<and> snd (update_module approved_store ''2025-03-03T09:00:00'' 1 ''total_revenue'' ''5'' None
             (Some example_ctx)) = approved_store
   \<and> map_of (fst (request_audit approved_store ''2025-03-03T09:00:00'' ''recheck'' None None
                     (Some [''no_such_field'']) (Some example_ctx))) ''error'' = None
   \<and> map_of (fst (request_audit approved_store ''2025-03-03T09:00:00'' ''recheck'' None None
                     (Some [''no_such_field'']) (Some example_ctx))) ''success'' = Some (PBool True)
   \<and> map au_action (audit_trail (snd (request_audit approved_store ''2025-03-03T09:00:00'' ''recheck''
                                          None None (Some [''no_such_field'']) (Some example_ctx))))
       = [''audit_requested'']
   \<and> map app_updated_at (applications (snd (request_audit approved_store ''2025-03-03T09:00:00''
                                               ''recheck'' None None (Some [''no_such_field''])
                                               (Some example_ctx))))
       = [''2025-03-03T09:00:00'']"
  by code_simp

end
